theory Spec2Isabelle
  imports Main "HOL-Library.AList" "HOL-Library.Multiset"
begin

section \<open>JavaScript values\<close>

text \<open>
  The records that travel through \<^verbatim>\<open>lib/api.ts\<close> are JSON documents typed
  \<^verbatim>\<open>Record<string, unknown>\<close>. A value is one of JavaScript's primitives, an array
  or an object; an object is the list of its own properties in insertion order. A
  property whose value is \<^verbatim>\<open>undefined\<close> is a pair of the list like any other, so
  \<^verbatim>\<open>{id: undefined}\<close> and \<^verbatim>\<open>{}\<close> are different objects that read the same.
  The finite numbers are the integers (the ids, counts, page numbers and timestamps
  of the API); beside them a value can be one of the three numbers that are not
  finite, \<^verbatim>\<open>NaN\<close>, \<^verbatim>\<open>Infinity\<close> and \<^verbatim>\<open>-Infinity\<close>. Where a function below computes
  with numbers that have a type of their own, \<^verbatim>\<open>NaN\<close> is \<open>None\<close> of an \<open>int option\<close>.
\<close>

datatype jsval =
    JUndefined
  | JNull
  | JBool bool
  | JNum int
  | JNaN
  | JInfinity
  | JNegInfinity
  | JStr string
  | JArr "jsval list"
  | JObj "(string \<times> jsval) list"

type_synonym obj = "(string \<times> jsval) list"

text \<open>\<^verbatim>\<open>!v\<close> is \<open>\<not> truthy v\<close>.\<close>

fun truthy :: "jsval \<Rightarrow> bool" where
  "truthy JUndefined = False"
| "truthy JNull = False"
| "truthy (JBool b) = b"
| "truthy (JNum n) = (n \<noteq> 0)"
| "truthy JNaN = False"
| "truthy JInfinity = True"
| "truthy JNegInfinity = True"
| "truthy (JStr s) = (s \<noteq> [])"
| "truthy (JArr xs) = True"
| "truthy (JObj ps) = True"

text \<open>\<^verbatim>\<open>a || b\<close>\<close>

definition js_or :: "jsval \<Rightarrow> jsval \<Rightarrow> jsval" where
  "js_or a b = (if truthy a then a else b)"

text \<open>\<^verbatim>\<open>typeof v === "number"\<close>, which holds of the numbers that are not finite too.\<close>

fun typeof_number :: "jsval \<Rightarrow> bool" where
  "typeof_number (JNum n) = True"
| "typeof_number JNaN = True"
| "typeof_number JInfinity = True"
| "typeof_number JNegInfinity = True"
| "typeof_number v = False"

text \<open>A finite number: what a count or an id of the API is.\<close>

fun is_number :: "jsval \<Rightarrow> bool" where
  "is_number (JNum n) = True"
| "is_number v = False"

text \<open>\<^verbatim>\<open>out.k\<close> on an object: the value of the property, \<^verbatim>\<open>undefined\<close> when there is none.\<close>

definition field :: "obj \<Rightarrow> string \<Rightarrow> jsval" where
  "field out k = (case map_of out k of None \<Rightarrow> JUndefined | Some v \<Rightarrow> v)"

text \<open>
  \<^verbatim>\<open>out.k = v\<close>: an existing property keeps its place and takes the new value, a new
  one goes to the end.
\<close>

definition assign :: "obj \<Rightarrow> string \<Rightarrow> jsval \<Rightarrow> obj" where
  "assign out k v = AList.update k v out"

text \<open>
  \<^verbatim>\<open>u.k\<close> on a truthy value \<open>u\<close> of any type, for the property names read below
  (\<^verbatim>\<open>id\<close>, \<^verbatim>\<open>full_name\<close>, \<^verbatim>\<open>username\<close>, \<^verbatim>\<open>slug\<close>, \<^verbatim>\<open>avatar\<close>, \<^verbatim>\<open>contents\<close>): numbers, strings,
  booleans and arrays have no such property.
\<close>

definition dot :: "jsval \<Rightarrow> string \<Rightarrow> jsval" where
  "dot u k = (case u of JObj ps \<Rightarrow> field ps k | _ \<Rightarrow> JUndefined)"

section \<open>The schema normalizer\<close>

text \<open>
  \<^verbatim>\<open>normalizeV2\<close> of \<^verbatim>\<open>lib/api.ts\<close> is a sequence of guarded assignments to \<open>out\<close>, a
  copy of its argument. Each statement of the source is one function from the object
  before it to the object after it, in the order of the source.
\<close>

text \<open>\<^verbatim>\<open>if (!out.type && out.class) out.type = out.class;\<close>\<close>

definition norm_type :: "obj \<Rightarrow> obj" where
  "norm_type out =
    (if \<not> truthy (field out ''type'') \<and> truthy (field out ''class'')
     then assign out ''type'' (field out ''class'') else out)"

text \<open>\<^verbatim>\<open>if (!out.base_type && out.class === "Channel") out.base_type = "Channel";\<close>\<close>

definition norm_base_channel :: "obj \<Rightarrow> obj" where
  "norm_base_channel out =
    (if \<not> truthy (field out ''base_type'') \<and> field out ''class'' = JStr ''Channel''
     then assign out ''base_type'' (JStr ''Channel'') else out)"

text \<open>
  \<^verbatim>\<open>if (!out.base_type && out.class !== "Channel" && out.class !== "User") out.base_type = "Block";\<close>
\<close>

definition norm_base_block :: "obj \<Rightarrow> obj" where
  "norm_base_block out =
    (if \<not> truthy (field out ''base_type'') \<and> field out ''class'' \<noteq> JStr ''Channel''
         \<and> field out ''class'' \<noteq> JStr ''User''
     then assign out ''base_type'' (JStr ''Block'') else out)"

text \<open>
  \<^verbatim>\<open>if (!out.counts && typeof out.length === "number") out.counts =
  { blocks: 0, channels: 0, contents: out.length, collaborators: out.collaborator_count || 0 };\<close>
\<close>

definition norm_channel_counts :: "obj \<Rightarrow> obj" where
  "norm_channel_counts out =
    (if \<not> truthy (field out ''counts'') \<and> typeof_number (field out ''length'')
     then assign out ''counts'' (JObj
            [(''blocks'', JNum 0),
             (''channels'', JNum 0),
             (''contents'', field out ''length''),
             (''collaborators'', js_or (field out ''collaborator_count'') (JNum 0))])
     else out)"

text \<open>\<^verbatim>\<open>if (!out.visibility && out.status) out.visibility = out.status;\<close>\<close>

definition norm_visibility :: "obj \<Rightarrow> obj" where
  "norm_visibility out =
    (if \<not> truthy (field out ''visibility'') \<and> truthy (field out ''status'')
     then assign out ''visibility'' (field out ''status'') else out)"

text \<open>
  \<^verbatim>\<open>if (!out.owner && out.user) { const u = out.user; out.owner = { id: u.id, type: "User",
  name: u.full_name || u.username, slug: u.slug, avatar: u.avatar, initials: "" }; }\<close>
\<close>

definition norm_owner :: "obj \<Rightarrow> obj" where
  "norm_owner out =
    (if \<not> truthy (field out ''owner'') \<and> truthy (field out ''user'')
     then (let u = field out ''user'' in
            assign out ''owner'' (JObj
              [(''id'', dot u ''id''),
               (''type'', JStr ''User''),
               (''name'', js_or (dot u ''full_name'') (dot u ''username'')),
               (''slug'', dot u ''slug''),
               (''avatar'', dot u ''avatar''),
               (''initials'', JStr [])]))
     else out)"

text \<open>\<^verbatim>\<open>if (!out.name && out.full_name) out.name = out.full_name;\<close>\<close>

definition norm_name_full :: "obj \<Rightarrow> obj" where
  "norm_name_full out =
    (if \<not> truthy (field out ''name'') \<and> truthy (field out ''full_name'')
     then assign out ''name'' (field out ''full_name'') else out)"

text \<open>\<^verbatim>\<open>if (!out.name && out.username) out.name = out.username;\<close>\<close>

definition norm_name_user :: "obj \<Rightarrow> obj" where
  "norm_name_user out =
    (if \<not> truthy (field out ''name'') \<and> truthy (field out ''username'')
     then assign out ''name'' (field out ''username'') else out)"

text \<open>\<^verbatim>\<open>if (!out.slug && out.username) out.slug = out.username;\<close>\<close>

definition norm_slug :: "obj \<Rightarrow> obj" where
  "norm_slug out =
    (if \<not> truthy (field out ''slug'') \<and> truthy (field out ''username'')
     then assign out ''slug'' (field out ''username'') else out)"

text \<open>
  \<^verbatim>\<open>if (!out.counts) out.counts = { channels: out.channel_count || 0,
  followers: out.follower_count || 0, following: out.following_count || 0 };\<close>
\<close>

definition norm_user_counts :: "obj \<Rightarrow> obj" where
  "norm_user_counts out =
    (if \<not> truthy (field out ''counts'')
     then assign out ''counts'' (JObj
            [(''channels'', js_or (field out ''channel_count'') (JNum 0)),
             (''followers'', js_or (field out ''follower_count'') (JNum 0)),
             (''following'', js_or (field out ''following_count'') (JNum 0))])
     else out)"

text \<open>The block \<^verbatim>\<open>if (out.class === "Channel") { ... }\<close>\<close>

definition norm_channel :: "obj \<Rightarrow> obj" where
  "norm_channel out =
    (if field out ''class'' = JStr ''Channel''
     then norm_owner (norm_visibility (norm_channel_counts out)) else out)"

text \<open>The block \<^verbatim>\<open>if (out.class === "User") { ... }\<close>\<close>

definition norm_user :: "obj \<Rightarrow> obj" where
  "norm_user out =
    (if field out ''class'' = JStr ''User''
     then norm_user_counts (norm_slug (norm_name_user (norm_name_full out))) else out)"

text \<open>\<^verbatim>\<open>const out = { ...item }; ...; return out;\<close>\<close>

definition normalizeV2 :: "obj \<Rightarrow> obj" where
  "normalizeV2 item =
    (let out = item;
         out = norm_type out;
         out = norm_base_channel out;
         out = norm_base_block out;
         out = norm_channel out;
         out = norm_user out
     in out)"

text \<open>
  A v2 channel as the API reference shows it, and a v3 channel that conforms to the
  \<^verbatim>\<open>Channel\<close> interface of \<^verbatim>\<open>lib/api.ts\<close>.
\<close>

definition v2_channel_example :: obj where
  "v2_channel_example =
    [(''id'', JNum 2500046),
     (''class'', JStr ''Channel''),
     (''base_class'', JStr ''Channel''),
     (''title'', JStr ''community + radio''),
     (''slug'', JStr ''community-radio-allffjcwo8k''),
     (''length'', JNum 7),
     (''status'', JStr ''public''),
     (''created_at'', JStr ''2023-11-16T03:01:36.029Z''),
     (''updated_at'', JStr ''2024-01-10T05:12:00.000Z''),
     (''collaborator_count'', JNum 0),
     (''follower_count'', JNum 0),
     (''user'', JObj
        [(''slug'', JStr ''lisa-glenn''),
         (''username'', JStr ''lisa-glenn''),
         (''full_name'', JStr ''lisa glenn''),
         (''avatar'', JStr ''...'')])]"

definition v3_channel_example :: obj where
  "v3_channel_example =
    [(''id'', JNum 275),
     (''type'', JStr ''Channel''),
     (''created_at'', JStr ''2011-08-12T17:53:48Z''),
     (''updated_at'', JStr ''2026-02-11T06:07:17Z''),
     (''slug'', JStr ''arena-influences''),
     (''title'', JStr ''Arena Influences''),
     (''description'', JNull),
     (''state'', JStr ''available''),
     (''visibility'', JStr ''closed''),
     (''owner'', JObj
        [(''id'', JNum 289),
         (''type'', JStr ''Group''),
         (''name'', JStr ''Are.na Team''),
         (''slug'', JStr ''are-na-team''),
         (''avatar'', JNull),
         (''initials'', JStr ''AT'')]),
     (''counts'', JObj
        [(''blocks'', JNum 126),
         (''channels'', JNum 2),
         (''contents'', JNum 128),
         (''collaborators'', JNum 9)]),
     (''can'', JObj []),
     (''_links'', JObj [])]"

text \<open>
  A v3 block (the \<^verbatim>\<open>Block\<close> interface has \<^verbatim>\<open>base_type: "Block"\<close>), and a legacy channel
  whose response carries \<^verbatim>\<open>"visibility": null\<close> beside its \<^verbatim>\<open>status\<close>.
\<close>

definition v3_block_example :: obj where
  "v3_block_example =
    [(''id'', JNum 3235876),
     (''type'', JStr ''Link''),
     (''base_type'', JStr ''Block''),
     (''title'', JStr ''Tools for thought''),
     (''created_at'', JStr ''2019-01-05T10:00:00Z''),
     (''updated_at'', JStr ''2019-01-05T10:00:00Z'')]"

definition legacy_null_example :: obj where
  "legacy_null_example =
    [(''id'', JNum 2500046),
     (''class'', JStr ''Channel''),
     (''length'', JNum 7),
     (''status'', JStr ''public''),
     (''visibility'', JNull)]"

text \<open>
  The \<^verbatim>\<open>Channel\<close>, \<^verbatim>\<open>Owner\<close> and \<^verbatim>\<open>Description\<close> interfaces of \<^verbatim>\<open>lib/api.ts\<close>, as
  predicates on values: every declared property is there with the declared type.
\<close>

fun is_string :: "jsval \<Rightarrow> bool" where
  "is_string (JStr s) = True"
| "is_string v = False"

fun is_object :: "jsval \<Rightarrow> bool" where
  "is_object (JObj ps) = True"
| "is_object v = False"

definition is_Description :: "jsval \<Rightarrow> bool" where
  "is_Description d \<longleftrightarrow>
     is_object d \<and> is_string (dot d ''markdown'') \<and> is_string (dot d ''html'')
       \<and> is_string (dot d ''plain'')"

definition is_Owner :: "jsval \<Rightarrow> bool" where
  "is_Owner w \<longleftrightarrow>
     is_object w \<and> is_number (dot w ''id'')
       \<and> (dot w ''type'' = JStr ''User'' \<or> dot w ''type'' = JStr ''Group'')
       \<and> is_string (dot w ''name'') \<and> is_string (dot w ''slug'')
       \<and> (is_string (dot w ''avatar'') \<or> dot w ''avatar'' = JNull)
       \<and> is_string (dot w ''initials'')"

definition is_Channel :: "obj \<Rightarrow> bool" where
  "is_Channel c \<longleftrightarrow>
     is_number (field c ''id'') \<and> field c ''type'' = JStr ''Channel''
       \<and> is_string (field c ''created_at'') \<and> is_string (field c ''updated_at'')
       \<and> is_string (field c ''slug'') \<and> is_string (field c ''title'')
       \<and> (is_Description (field c ''description'') \<or> field c ''description'' = JNull)
       \<and> is_string (field c ''state'')
       \<and> (field c ''visibility'' = JStr ''public'' \<or> field c ''visibility'' = JStr ''closed''
            \<or> field c ''visibility'' = JStr ''private'')
       \<and> is_Owner (field c ''owner'')
       \<and> is_object (field c ''counts'')
       \<and> is_number (dot (field c ''counts'') ''blocks'')
       \<and> is_number (dot (field c ''counts'') ''channels'')
       \<and> is_number (dot (field c ''counts'') ''contents'')
       \<and> is_number (dot (field c ''counts'') ''collaborators'')
       \<and> is_object (field c ''can'') \<and> is_object (field c ''_links'')"

text \<open>
  The properties \<^verbatim>\<open>normalizeV2\<close> assigns to, and the condition under which none of its
  guards holds.
\<close>

definition canonical_fields :: "string set" where
  "canonical_fields =
     {''type'', ''base_type'', ''counts'', ''visibility'', ''owner'', ''name'', ''slug''}"

definition settled :: "obj \<Rightarrow> bool" where
  "settled out \<longleftrightarrow>
     (truthy (field out ''class'') \<longrightarrow> truthy (field out ''type'')) \<and>
     (field out ''class'' \<noteq> JStr ''User'' \<longrightarrow> truthy (field out ''base_type'')) \<and>
     (field out ''class'' = JStr ''Channel'' \<longrightarrow>
        (typeof_number (field out ''length'') \<longrightarrow> truthy (field out ''counts'')) \<and>
        (truthy (field out ''status'') \<longrightarrow> truthy (field out ''visibility'')) \<and>
        (truthy (field out ''user'') \<longrightarrow> truthy (field out ''owner''))) \<and>
     (field out ''class'' = JStr ''User'' \<longrightarrow>
        (truthy (field out ''full_name'') \<longrightarrow> truthy (field out ''name'')) \<and>
        (truthy (field out ''username'') \<longrightarrow> truthy (field out ''name'')) \<and>
        (truthy (field out ''username'') \<longrightarrow> truthy (field out ''slug'')) \<and>
        truthy (field out ''counts''))"

section \<open>The response cache\<close>

text \<open>
  \<^verbatim>\<open>lib/cache.ts\<close> keeps one file per key in the cache directory. A file written by
  \<^verbatim>\<open>set\<close> holds \<^verbatim>\<open>JSON.stringify(entry)\<close> and \<^verbatim>\<open>get\<close> reads it with \<^verbatim>\<open>JSON.parse\<close>.
  What a value becomes on that way is \<open>json\<close>: \<^verbatim>\<open>JSON.stringify\<close> leaves out the
  properties of an object whose value is \<^verbatim>\<open>undefined\<close>, writes \<^verbatim>\<open>null\<close> for an
  \<^verbatim>\<open>undefined\<close> element of an array, and writes \<^verbatim>\<open>null\<close> for \<^verbatim>\<open>NaN\<close>, \<^verbatim>\<open>Infinity\<close> and
  \<^verbatim>\<open>-Infinity\<close> wherever they stand; a property of the entry itself that is
  \<^verbatim>\<open>undefined\<close> is left out and reads back as \<^verbatim>\<open>undefined\<close>.
\<close>

fun json :: "jsval \<Rightarrow> jsval"
  and json_elements :: "jsval list \<Rightarrow> jsval list"
  and json_members :: "(string \<times> jsval) list \<Rightarrow> (string \<times> jsval) list" where
  "json (JArr xs) = JArr (json_elements xs)"
| "json (JObj ps) = JObj (json_members ps)"
| "json JUndefined = JUndefined"
| "json JNull = JNull"
| "json (JBool b) = JBool b"
| "json (JNum n) = JNum n"
| "json JNaN = JNull"
| "json JInfinity = JNull"
| "json JNegInfinity = JNull"
| "json (JStr s) = JStr s"
| "json_elements [] = []"
| "json_elements (x # xs) = (if x = JUndefined then JNull else json x) # json_elements xs"
| "json_members [] = []"
| "json_members ((k, v) # ps) =
     (if v = JUndefined then json_members ps else (k, json v) # json_members ps)"

text \<open>
  The values \<^verbatim>\<open>JSON.stringify\<close> writes as they are: no \<^verbatim>\<open>undefined\<close> inside, and no
  number that is not finite anywhere.
\<close>

fun plain :: "jsval \<Rightarrow> bool"
  and plain_elements :: "jsval list \<Rightarrow> bool"
  and plain_members :: "(string \<times> jsval) list \<Rightarrow> bool" where
  "plain (JArr xs) = plain_elements xs"
| "plain (JObj ps) = plain_members ps"
| "plain JUndefined = True"
| "plain JNull = True"
| "plain (JBool b) = True"
| "plain (JNum n) = True"
| "plain JNaN = False"
| "plain JInfinity = False"
| "plain JNegInfinity = False"
| "plain (JStr s) = True"
| "plain_elements [] = True"
| "plain_elements (x # xs) = (x \<noteq> JUndefined \<and> plain x \<and> plain_elements xs)"
| "plain_members [] = True"
| "plain_members ((k, v) # ps) = (v \<noteq> JUndefined \<and> plain v \<and> plain_members ps)"

text \<open>\<^verbatim>\<open>interface CacheEntry\<close>\<close>

record CacheEntry =
  entry_query :: string
  entry_params :: string
  entry_timestamp :: int
  entry_data :: jsval

text \<open>
  The content of a file of the cache directory: the JSON of an entry, as the source
  types what it parses (\<^verbatim>\<open>const entry: CacheEntry = JSON.parse(...)\<close>), or text on which
  \<^verbatim>\<open>JSON.parse\<close> throws. The directory is the map from file names to contents, with
  the flag \<^verbatim>\<open>existsSync(CACHE_DIR)\<close>; \<^verbatim>\<open>unlinkSync\<close> removes a file that is there.
\<close>

datatype cache_file = EntryJson CacheEntry | Malformed

record cache_dir =
  dir_exists :: bool
  files :: "string \<rightharpoonup> cache_file"

text \<open>\<^verbatim>\<open>JSON.stringify(entry, null, 2)\<close>, as \<^verbatim>\<open>JSON.parse\<close> reads it back.\<close>

definition stringify :: "CacheEntry \<Rightarrow> cache_file" where
  "stringify entry = EntryJson (entry\<lparr>entry_data := json (entry_data entry)\<rparr>)"

definition ensureDir :: "cache_dir \<Rightarrow> cache_dir" where
  "ensureDir fs = (if \<not> dir_exists fs then fs\<lparr>dir_exists := True\<rparr> else fs)"

text \<open>
  \<^verbatim>\<open>cacheKey\<close>. The MD5 digest in hexadecimal, \<^verbatim>\<open>createHash("md5").update(s).digest("hex")\<close>
  of Node's \<^verbatim>\<open>crypto\<close> module, is the parameter \<open>md5_hex\<close>.
\<close>

definition cacheKey :: "(string \<Rightarrow> string) \<Rightarrow> string \<Rightarrow> string \<Rightarrow> string" where
  "cacheKey md5_hex query params = take 12 (md5_hex (query @ ''|'' @ params))"

text \<open>
  \<^verbatim>\<open>get\<close>; \<open>now\<close> is \<^verbatim>\<open>Date.now()\<close>. The result is the returned value (\<open>JNull\<close> for
  \<^verbatim>\<open>null\<close>) and the directory afterwards. On a malformed file \<^verbatim>\<open>JSON.parse\<close> throws and
  the \<^verbatim>\<open>catch\<close> clause returns \<^verbatim>\<open>null\<close>.
\<close>

definition cache_get ::
  "(string \<Rightarrow> string) \<Rightarrow> int \<Rightarrow> cache_dir \<Rightarrow> string \<Rightarrow> string \<Rightarrow> int \<Rightarrow> jsval \<times> cache_dir" where
  "cache_get md5_hex now fs0 query params ttlMs =
    (let fs = ensureDir fs0;
         key = cacheKey md5_hex query params;
         path = key @ ''.json''
     in case files fs path of
          None \<Rightarrow> (JNull, fs)
        | Some Malformed \<Rightarrow> (JNull, fs)
        | Some (EntryJson entry) \<Rightarrow>
            if now - entry_timestamp entry > ttlMs
            then (JNull, fs\<lparr>files := (files fs)(path := None)\<rparr>)
            else (entry_data entry, fs))"

text \<open>\<^verbatim>\<open>set\<close>; \<open>now\<close> is \<^verbatim>\<open>Date.now()\<close>.\<close>

definition cache_set ::
  "(string \<Rightarrow> string) \<Rightarrow> int \<Rightarrow> cache_dir \<Rightarrow> string \<Rightarrow> string \<Rightarrow> jsval \<Rightarrow> cache_dir" where
  "cache_set md5_hex now fs0 query params data =
    (let fs = ensureDir fs0;
         key = cacheKey md5_hex query params;
         path = key @ ''.json'';
         entry = \<lparr>entry_query = query, entry_params = params,
                  entry_timestamp = now, entry_data = data\<rparr>
     in fs\<lparr>files := (files fs)(path \<mapsto> stringify entry)\<rparr>)"

section \<open>Rate-limit headers\<close>

text \<open>
  \<^verbatim>\<open>parseInt(s)\<close> without a radix: leading white space is skipped, a sign is read, the
  prefix \<^verbatim>\<open>0x\<close> selects base 16, and the longest run of digits is the value; \<open>None\<close> is
  \<^verbatim>\<open>NaN\<close>, the result when there is no digit.
\<close>

definition is_space :: "char \<Rightarrow> bool" where
  "is_space c \<longleftrightarrow> (of_char c :: nat) \<in> {9, 10, 11, 12, 13, 32}"

definition digit_value :: "char \<Rightarrow> nat" where
  "digit_value c =
    (let n = (of_char c :: nat) in
     if 48 \<le> n \<and> n \<le> 57 then n - 48
     else if 97 \<le> n \<and> n \<le> 122 then n - 87
     else if 65 \<le> n \<and> n \<le> 90 then n - 55
     else 36)"

definition parseInt :: "string \<Rightarrow> int option" where
  "parseInt str =
    (let s = dropWhile is_space str;
         negative = (take 1 s = ''-'');
         s = (if take 1 s = ''-'' \<or> take 1 s = ''+'' then drop 1 s else s);
         hex = (take 2 s = ''0x'' \<or> take 2 s = ''0X'');
         radix = (if hex then 16 else 10);
         s = (if hex then drop 2 s else s);
         ds = takeWhile (\<lambda>c. digit_value c < radix) s;
         n = foldl (\<lambda>a c. a * radix + digit_value c) 0 ds
     in if ds = [] then None else Some (if negative then - int n else int n))"

text \<open>
  \<^verbatim>\<open>interface RateLimitInfo\<close>; a numeric field is \<open>None\<close> when \<^verbatim>\<open>parseInt\<close> gave \<^verbatim>\<open>NaN\<close>.
\<close>

record RateLimitInfo =
  limit :: "int option"
  tier :: string
  window :: "int option"
  reset :: "int option"

text \<open>
  Response headers, by lower-case name. \<^verbatim>\<open>headers.get(name) || dflt\<close>: the default
  stands in for a header that is absent and for one that is empty.
\<close>

type_synonym headers = "string \<rightharpoonup> string"

definition header_or :: "headers \<Rightarrow> string \<Rightarrow> string \<Rightarrow> string" where
  "header_or hs name dflt =
    (case hs name of None \<Rightarrow> dflt | Some v \<Rightarrow> if v = [] then dflt else v)"

definition parseRateLimitHeaders :: "headers \<Rightarrow> RateLimitInfo" where
  "parseRateLimitHeaders hs =
    \<lparr>limit = parseInt (header_or hs ''x-ratelimit-limit'' ''0''),
     tier = header_or hs ''x-ratelimit-tier'' ''unknown'',
     window = parseInt (header_or hs ''x-ratelimit-window'' ''60''),
     reset = parseInt (header_or hs ''x-ratelimit-reset'' ''0'')\<rparr>"

section \<open>Transport\<close>

text \<open>
  Every failure of \<^verbatim>\<open>lib/api.ts\<close> is a JavaScript \<^verbatim>\<open>Error\<close> with a message. The
  constructors are the messages, with the values the message is built from:
  \<^item> \<open>TokenNotConfigured\<close>: \<^verbatim>\<open>ARENA_ACCESS_TOKEN not configured. ...\<close>, thrown by
    \<^verbatim>\<open>requireToken\<close> and on status 401;
  \<^item> \<open>ChannelPrivate\<close>: \<^verbatim>\<open>This channel is private. ...\<close>, on status 403;
  \<^item> \<open>NotFound resource identifier\<close>: \<^verbatim>\<open>${resource} not found: ${identifier}\<close>;
  \<^item> \<open>RateLimited waitSec tier\<close>: \<^verbatim>\<open>Rate limited. Resets in ${waitSec}s. Your tier: ${tier}\<close>;
  \<^item> \<open>ApiError status body\<close>: \<^verbatim>\<open>Are.na API ${status}: ${body.slice(0, 200)}\<close>;
  \<^item> \<open>FetchRejected\<close> and \<open>JsonRejected\<close>: the promise of \<^verbatim>\<open>fetch\<close> or of \<^verbatim>\<open>res.json()\<close>
    rejects, and \<^verbatim>\<open>await\<close> rethrows.
\<close>

datatype error =
    TokenNotConfigured
  | ChannelPrivate
  | NotFound string string
  | RateLimited int string
  | ApiError int string
  | FetchRejected
  | JsonRejected

definition BASE :: string where
  "BASE = ''https://api.are.na/v3''"

definition RATE_DELAY_MS :: int where
  "RATE_DELAY_MS = 200"

text \<open>
  \<^verbatim>\<open>getToken\<close> and \<^verbatim>\<open>requireToken\<close>; the argument is \<^verbatim>\<open>process.env.ARENA_ACCESS_TOKEN\<close>,
  \<open>None\<close> when the variable is not set.
\<close>

definition getToken :: "string option \<Rightarrow> string option" where
  "getToken env_token =
    (case env_token of None \<Rightarrow> None | Some t \<Rightarrow> if t = [] then None else Some t)"

definition requireToken :: "string option \<Rightarrow> error + string" where
  "requireToken env_token =
    (case getToken env_token of None \<Rightarrow> Inl TokenNotConfigured | Some token \<Rightarrow> Inr token)"

text \<open>
  A request as \<^verbatim>\<open>fetch(url, { headers })\<close> sends it, and the response as \<^verbatim>\<open>apiGet\<close> reads
  it: the status, the headers, the body as \<^verbatim>\<open>res.text()\<close> gives it and as \<^verbatim>\<open>res.json()\<close>
  gives it at the type the caller asks for (\<open>None\<close> when \<^verbatim>\<open>res.json()\<close> rejects).
\<close>

record request =
  url :: string
  authorization :: "string option"

record 'a response =
  status :: int
  headers :: headers
  body_text :: string
  body_json :: "'a option"

text \<open>
  The network answers a request sent at a time of the clock: \<open>settled_at\<close> is the clock
  when the promise of \<^verbatim>\<open>fetch\<close> settles, \<open>outcome\<close> the response, \<open>None\<close> when the
  promise rejects.
\<close>

record 'a reply =
  settled_at :: int
  outcome :: "'a response option"

type_synonym 'a network = "int \<Rightarrow> request \<Rightarrow> 'a reply"

text \<open>
  The state of the module: the clock (\<^verbatim>\<open>Date.now()\<close>, in milliseconds), the variable
  \<^verbatim>\<open>lastRequestTime\<close>, and the requests handed to \<^verbatim>\<open>fetch\<close> so far, oldest first. The
  clock moves while the code waits: in \<^verbatim>\<open>sleep\<close>, by the time asked for, and in \<^verbatim>\<open>fetch\<close>.
\<close>

record client =
  clock :: int
  lastRequestTime :: int
  sent :: "request list"

text \<open>\<^verbatim>\<open>s.split(d)\<close> for a one-character separator.\<close>

fun split_on :: "char \<Rightarrow> string \<Rightarrow> string list" where
  "split_on d [] = [[]]"
| "split_on d (c # cs) =
     (if c = d then [] # split_on d cs
      else (case split_on d cs of p # ps \<Rightarrow> (c # p) # ps | [] \<Rightarrow> [[c]]))"

text \<open>The 404 branch of \<^verbatim>\<open>apiGet\<close>: the resource and the identifier of the message.\<close>

definition not_found :: "string \<Rightarrow> error" where
  "not_found path =
    (let parts = split_on (CHR ''/'') (if take 1 path = ''/'' then drop 1 path else path);
         part0 = (case parts of [] \<Rightarrow> [] | p # ps \<Rightarrow> p);
         resource = (if part0 = ''channels'' then ''Channel''
                     else if part0 = ''blocks'' then ''Block''
                     else if part0 = ''users'' then ''User'' else ''Resource'');
         identifier = (case drop 1 parts of [] \<Rightarrow> path | p # ps \<Rightarrow> if p = [] then path else p)
     in NotFound resource identifier)"

text \<open>
  \<^verbatim>\<open>apiGet\<close>, in the three parts of its body. First the minimum delay between
  requests: \<^verbatim>\<open>if (elapsed < RATE_DELAY_MS) await sleep(RATE_DELAY_MS - elapsed)\<close>.
\<close>

definition pace :: "client \<Rightarrow> client" where
  "pace c =
    (let elapsed = clock c - lastRequestTime c
     in if elapsed < RATE_DELAY_MS
        then c\<lparr>clock := clock c + (RATE_DELAY_MS - elapsed)\<rparr> else c)"

text \<open>The URL and the headers of the request; the token is attached when there is one.\<close>

definition request_for :: "string option \<Rightarrow> string \<Rightarrow> request" where
  "request_for env_token path =
    (let url = (if take 4 path = ''http'' then path else BASE @ path);
         token = getToken env_token
     in \<lparr>url = url,
         authorization = (case token of None \<Rightarrow> None | Some t \<Rightarrow> Some (''Bearer '' @ t))\<rparr>)"

text \<open>
  The statements after \<^verbatim>\<open>fetch\<close>: the rate-limit headers are parsed, then the status
  decides. \<open>now\<close> is \<^verbatim>\<open>Date.now()\<close> in the 429 branch.
\<close>

definition classify :: "string \<Rightarrow> int \<Rightarrow> 'a response \<Rightarrow> error + 'a \<times> RateLimitInfo" where
  "classify path now res =
    (let rateLimit = parseRateLimitHeaders (headers res)
     in if status res = 401 then Inl TokenNotConfigured
        else if status res = 403 then Inl ChannelPrivate
        else if status res = 404 then Inl (not_found path)
        else if status res = 429 then
          (let waitSec = (case reset rateLimit of
                            None \<Rightarrow> 60
                          | Some r \<Rightarrow> if r = 0 then 60 else max (r - now div 1000) 1)
           in Inl (RateLimited waitSec (tier rateLimit)))
        else if \<not> (200 \<le> status res \<and> status res \<le> 299)
          then Inl (ApiError (status res) (take 200 (body_text res)))
        else (case body_json res of
                None \<Rightarrow> Inl JsonRejected
              | Some data \<Rightarrow> Inr (data, rateLimit)))"

text \<open>
  \<^verbatim>\<open>apiGet\<close>. The result is what the promise settles to, \<open>Inl\<close> for a thrown error, and
  the state afterwards. \<^verbatim>\<open>lastRequestTime = Date.now()\<close> runs when \<^verbatim>\<open>fetch\<close> has
  answered, not when it rejects.
\<close>

definition apiGet ::
  "string option \<Rightarrow> 'a network \<Rightarrow> client \<Rightarrow> string \<Rightarrow> (error + 'a \<times> RateLimitInfo) \<times> client" where
  "apiGet env_token fetch c0 path =
    (let c1 = pace c0;
         req = request_for env_token path;
         rep = fetch (clock c1) req;
         c2 = c1\<lparr>clock := settled_at rep, sent := sent c1 @ [req]\<rparr>
     in case outcome rep of
          None \<Rightarrow> (Inl FetchRejected, c2)
        | Some res \<Rightarrow>
           (let c3 = c2\<lparr>lastRequestTime := clock c2\<rparr>
            in (classify path (clock c3) res, c3)))"

section \<open>Search\<close>

text \<open>
  \<^verbatim>\<open>interface PaginationMeta\<close>. \<open>None\<close> is \<^verbatim>\<open>null\<close> in \<open>next_page\<close> and \<open>prev_page\<close>, and
  a number that is missing (\<^verbatim>\<open>undefined\<close>, or the \<^verbatim>\<open>NaN\<close> computed from it) in
  \<open>total_pages\<close> and \<open>total_count\<close>.
\<close>

record PaginationMeta =
  current_page :: int
  next_page :: "int option"
  prev_page :: "int option"
  per_page :: int
  total_pages :: "int option"
  total_count :: "int option"
  has_more_pages :: bool

text \<open>\<^verbatim>\<open>interface PaginatedResponse<SearchResult>\<close>\<close>

record PaginatedResponse =
  page_data :: "obj list"
  page_meta :: PaginationMeta

text \<open>
  \<^verbatim>\<open>interface V2SearchResponse\<close>, the fields the code reads. A field is \<open>None\<close> when the
  response does not have it; the code guards against that with \<^verbatim>\<open>||\<close> and \<^verbatim>\<open>if\<close>.
\<close>

record V2SearchResponse =
  v2_per :: "int option"
  v2_current_page :: "int option"
  v2_total_pages :: "int option"
  v2_channels :: "obj list option"
  v2_blocks :: "obj list option"
  v2_users :: "obj list option"

text \<open>
  On numbers that may be missing: \<^verbatim>\<open>a || b\<close> (zero is falsy), \<^verbatim>\<open>a < b\<close> and \<^verbatim>\<open>a > b\<close>
  (false when an operand is \<^verbatim>\<open>undefined\<close>), \<^verbatim>\<open>a * b\<close> (\<^verbatim>\<open>NaN\<close> when \<open>a\<close> is \<^verbatim>\<open>undefined\<close>).
\<close>

definition num_or :: "int option \<Rightarrow> int \<Rightarrow> int" where
  "num_or a b = (case a of None \<Rightarrow> b | Some n \<Rightarrow> if n = 0 then b else n)"

definition num_less :: "int option \<Rightarrow> int option \<Rightarrow> bool" where
  "num_less a b = (case (a, b) of (Some m, Some n) \<Rightarrow> m < n | _ \<Rightarrow> False)"

definition num_plus :: "int option \<Rightarrow> int \<Rightarrow> int option" where
  "num_plus a b = (case a of None \<Rightarrow> None | Some n \<Rightarrow> Some (n + b))"

definition num_times :: "int option \<Rightarrow> int \<Rightarrow> int option" where
  "num_times a b = (case a of None \<Rightarrow> None | Some n \<Rightarrow> Some (n * b))"

text \<open>\<^verbatim>\<open>v2ToMeta\<close>\<close>

definition v2ToMeta :: "V2SearchResponse \<Rightarrow> int \<Rightarrow> int \<Rightarrow> PaginationMeta" where
  "v2ToMeta r page per =
    \<lparr>current_page = num_or (v2_current_page r) page,
     next_page = (if num_less (v2_current_page r) (v2_total_pages r)
                  then num_plus (v2_current_page r) 1 else None),
     prev_page = (if num_less (Some 1) (v2_current_page r)
                  then num_plus (v2_current_page r) (- 1) else None),
     per_page = num_or (v2_per r) per,
     total_pages = v2_total_pages r,
     total_count = num_times (v2_total_pages r) (num_or (v2_per r) per),
     has_more_pages = num_less (v2_current_page r) (v2_total_pages r)\<rparr>"

text \<open>\<^verbatim>\<open>s.toLowerCase()\<close> on the letters A to Z.\<close>

definition lower :: "char \<Rightarrow> char" where
  "lower c = (let n = (of_char c :: nat) in if 65 \<le> n \<and> n \<le> 90 then char_of (n + 32) else c)"

text \<open>\<^verbatim>\<open>v2TypeEndpoint\<close>; \<open>None\<close> is an option that was not given.\<close>

definition v2TypeEndpoint :: "string option \<Rightarrow> string" where
  "v2TypeEndpoint type_opt =
    (case type_opt of
       None \<Rightarrow> ''/search''
     | Some ty \<Rightarrow>
         if ty = [] then ''/search''
         else (let t = map lower ty in
               if t = ''channel'' then ''/search/channels''
               else if t = ''user'' then ''/search/users''
               else ''/search/blocks''))"

text \<open>\<^verbatim>\<open>v2ToResults\<close>\<close>

definition v2ToResults :: "V2SearchResponse \<Rightarrow> obj list" where
  "v2ToResults r =
    (case v2_channels r of None \<Rightarrow> [] | Some cs \<Rightarrow> map normalizeV2 cs)
    @ (case v2_blocks r of None \<Rightarrow> [] | Some bs \<Rightarrow> map normalizeV2 bs)
    @ (case v2_users r of None \<Rightarrow> [] | Some us \<Rightarrow> map normalizeV2 us)"

subsection \<open>Client-side sort\<close>

text \<open>
  \<^verbatim>\<open>Array.prototype.sort(compare)\<close> is a stable sort (ECMAScript 2019); a comparator
  result \<^verbatim>\<open>NaN\<close> counts as 0. For a comparator that is a consistent ordering the
  result is determined: the elements in ascending order of the comparator, ties in
  their original order. Insertion from the right computes it: an element goes in
  front of the first element it does not exceed.
\<close>

fun insert_by :: "('a \<Rightarrow> 'a \<Rightarrow> int option) \<Rightarrow> 'a \<Rightarrow> 'a list \<Rightarrow> 'a list" where
  "insert_by compare x [] = [x]"
| "insert_by compare x (y # ys) =
     (if (case compare x y of None \<Rightarrow> 0 | Some v \<Rightarrow> v) \<le> 0 then x # y # ys
      else y # insert_by compare x ys)"

definition sort_by :: "('a \<Rightarrow> 'a \<Rightarrow> int option) \<Rightarrow> 'a list \<Rightarrow> 'a list" where
  "sort_by compare xs = foldr (insert_by compare) xs []"

text \<open>
  \<^verbatim>\<open>a.created_at || ""\<close> and \<^verbatim>\<open>a.updated_at || ""\<close>: the interfaces type both fields
  \<^verbatim>\<open>string\<close>; a record without the field gives the empty string.
\<close>

definition string_or_empty :: "jsval \<Rightarrow> string" where
  "string_or_empty v = (case v of JStr s \<Rightarrow> s | _ \<Rightarrow> [])"

text \<open>\<^verbatim>\<open>(a as Channel).counts?.contents || (a as any).length || 0\<close>\<close>

definition connections_count :: "obj \<Rightarrow> jsval" where
  "connections_count a =
     js_or (js_or (dot (field a ''counts'') ''contents'') (field a ''length'')) (JNum 0)"

text \<open>
  \<^verbatim>\<open>x - y\<close> on two finite numbers. The count fields are typed \<^verbatim>\<open>number\<close> and hold
  counts; the difference with an operand that is not finite, and the conversion
  JavaScript applies to an operand of another type, are not modelled: the result is
  \<open>None\<close>.
\<close>

definition js_minus :: "jsval \<Rightarrow> jsval \<Rightarrow> int option" where
  "js_minus x y = (case (x, y) of (JNum m, JNum n) \<Rightarrow> Some (m - n) | _ \<Rightarrow> None)"

text \<open>
  \<^verbatim>\<open>sortResults\<close>. \<^verbatim>\<open>String.prototype.localeCompare\<close>, which depends on the locale of
  the runtime, is the parameter \<open>localeCompare\<close>.
\<close>

definition sortResults :: "(string \<Rightarrow> string \<Rightarrow> int) \<Rightarrow> obj list \<Rightarrow> string \<Rightarrow> obj list" where
  "sortResults localeCompare results sort_name =
    (let sorted = results in
     if sort_name = ''created_at_desc'' then
       sort_by (\<lambda>a b. Some (localeCompare (string_or_empty (field b ''created_at''))
                                          (string_or_empty (field a ''created_at'')))) sorted
     else if sort_name = ''updated_at_desc'' then
       sort_by (\<lambda>a b. Some (localeCompare (string_or_empty (field b ''updated_at''))
                                          (string_or_empty (field a ''updated_at'')))) sorted
     else if sort_name = ''connections_count_desc'' then
       sort_by (\<lambda>a b. let aCount = connections_count a; bCount = connections_count b
                      in js_minus bCount aCount) sorted
     else sorted)"

subsection \<open>The two search paths\<close>

text \<open>\<^verbatim>\<open>String(n)\<close> for an integer.\<close>

fun digits :: "nat \<Rightarrow> string" where
  "digits n =
     (if n < 10 then [char_of (48 + n)] else digits (n div 10) @ [char_of (48 + n mod 10)])"

definition String :: "int \<Rightarrow> string" where
  "String n = (if n < 0 then CHR ''-'' # digits (nat (- n)) else digits (nat n))"

text \<open>The options of \<^verbatim>\<open>searchArena\<close>; \<open>None\<close> is an option that was not given.\<close>

record search_opts =
  opt_type :: "string option"
  opt_sort :: "string option"
  opt_scope :: "string option"
  opt_page :: "int option"
  opt_per :: "int option"

text \<open>
  \<^verbatim>\<open>URLSearchParams.prototype.toString\<close>: the \<^verbatim>\<open>application/x-www-form-urlencoded\<close>
  serializer. Letters, digits and \<^verbatim>\<open>*-._\<close> stand for themselves, a space becomes
  \<^verbatim>\<open>+\<close>, any other byte is percent-encoded; the pairs are joined by \<^verbatim>\<open>&\<close>.
\<close>

definition hex_digit :: "nat \<Rightarrow> char" where
  "hex_digit n = (if n < 10 then char_of (48 + n) else char_of (55 + n))"

definition form_byte :: "char \<Rightarrow> string" where
  "form_byte c =
    (let n = (of_char c :: nat) in
     if n = 32 then ''+''
     else if (48 \<le> n \<and> n \<le> 57) \<or> (65 \<le> n \<and> n \<le> 90) \<or> (97 \<le> n \<and> n \<le> 122)
             \<or> n = 42 \<or> n = 45 \<or> n = 46 \<or> n = 95 then [c]
     else [CHR ''%'', hex_digit (n div 16), hex_digit (n mod 16)])"

definition form_encode :: "string \<Rightarrow> string" where
  "form_encode s = concat (map form_byte s)"

fun params_toString :: "(string \<times> string) list \<Rightarrow> string" where
  "params_toString [] = []"
| "params_toString [(k, v)] = form_encode k @ ''='' @ form_encode v"
| "params_toString ((k, v) # p # ps) =
     form_encode k @ ''='' @ form_encode v @ ''&'' @ params_toString (p # ps)"

text \<open>\<^verbatim>\<open>if (opts.k) params.set(name, value)\<close>\<close>

definition set_if :: "'a option \<Rightarrow> ('a \<Rightarrow> bool) \<Rightarrow> string \<Rightarrow> ('a \<Rightarrow> string)
    \<Rightarrow> (string \<times> string) list \<Rightarrow> (string \<times> string) list" where
  "set_if v falsy name to_string params =
    (case v of None \<Rightarrow> params
     | Some x \<Rightarrow> if falsy x then params else AList.update name (to_string x) params)"

text \<open>\<^verbatim>\<open>searchArenaV3\<close>. The result is the triple \<^verbatim>\<open>{ results, meta, rateLimit }\<close>.\<close>

definition searchArenaV3 ::
  "string option \<Rightarrow> PaginatedResponse network
    \<Rightarrow> client \<Rightarrow> string \<Rightarrow> search_opts
    \<Rightarrow> (error + obj list \<times> PaginationMeta \<times> RateLimitInfo) \<times> client" where
  "searchArenaV3 env_token fetch c query opts =
    (case requireToken env_token of
       Inl e \<Rightarrow> (Inl e, c)
     | Inr token \<Rightarrow>
        (let params = [(''q'', query)];
             params = set_if (opt_type opts) (\<lambda>s. s = []) ''type'' (\<lambda>s. s) params;
             params = set_if (opt_sort opts) (\<lambda>s. s = []) ''sort'' (\<lambda>s. s) params;
             params = AList.update ''scope''
                        (case opt_scope opts of None \<Rightarrow> ''all''
                         | Some s \<Rightarrow> if s = [] then ''all'' else s) params;
             params = set_if (opt_page opts) (\<lambda>n. n = 0) ''page'' String params;
             params = set_if (opt_per opts) (\<lambda>n. n = 0) ''per'' String params
         in case apiGet env_token fetch c (''/search?'' @ params_toString params) of
              (Inl e, c') \<Rightarrow> (Inl e, c')
            | (Inr (data, rateLimit), c') \<Rightarrow>
                (Inr (page_data data, page_meta data, rateLimit), c')))"

text \<open>
  \<^verbatim>\<open>searchArena\<close>. The two backends answer with bodies of different types, so the
  network is given once at each: \<open>fetch_v2\<close> for the requests of this function and
  \<open>fetch_v3\<close> for those of \<^verbatim>\<open>searchArenaV3\<close>.
\<close>

definition searchArena ::
  "(string \<Rightarrow> string \<Rightarrow> int) \<Rightarrow> string option
    \<Rightarrow> V2SearchResponse network \<Rightarrow> PaginatedResponse network
    \<Rightarrow> client \<Rightarrow> string \<Rightarrow> search_opts
    \<Rightarrow> (error + obj list \<times> PaginationMeta \<times> RateLimitInfo) \<times> client" where
  "searchArena localeCompare env_token fetch_v2 fetch_v3 c query opts =
    (if (case opt_scope opts of None \<Rightarrow> False | Some s \<Rightarrow> s \<noteq> [] \<and> s \<noteq> ''all'')
     then searchArenaV3 env_token fetch_v3 c query opts
     else
      (let page = num_or (opt_page opts) 1;
           per = num_or (opt_per opts) 24;
           endpoint = v2TypeEndpoint (opt_type opts);
           params = [(''q'', query), (''per'', String per), (''page'', String page)];
           BASE_V2 = ''https://api.are.na/v2''
       in case apiGet env_token fetch_v2 c (BASE_V2 @ endpoint @ ''?'' @ params_toString params) of
            (Inl e, c') \<Rightarrow> (Inl e, c')
          | (Inr (data, rateLimit), c') \<Rightarrow>
              (let results = v2ToResults data;
                   results = (case opt_sort opts of
                                None \<Rightarrow> results
                              | Some sort_name \<Rightarrow>
                                  if sort_name = [] then results
                                  else sortResults localeCompare results sort_name)
               in (Inr (results, v2ToMeta data page per, rateLimit), c'))))"

section \<open>Concrete situations\<close>

text \<open>
  Stand-ins for the two functions of the runtime that are parameters: a digest that
  returns its argument, and a collation under which all strings are equal.
\<close>

definition example_digest :: "string \<Rightarrow> string" where
  "example_digest s = s"

definition example_compare :: "string \<Rightarrow> string \<Rightarrow> int" where
  "example_compare a b = 0"

text \<open>
  A cache directory that does not exist yet, and one with an entry for the search
  \<^verbatim>\<open>community radio\<close> captured at 1700000000000, under the file name that
  \<open>example_digest\<close> gives.
\<close>

definition empty_dir :: cache_dir where
  "empty_dir = \<lparr>dir_exists = False, files = Map.empty\<rparr>"

definition stale_dir :: cache_dir where
  "stale_dir = \<lparr>dir_exists = True,
     files = [''community ra.json'' \<mapsto> EntryJson \<lparr>entry_query = ''community radio'',
        entry_params = ''type=&sort=score_desc&scope=all&per=24&page=1'',
        entry_timestamp = 1700000000000, entry_data = JObj [(''results'', JArr [])]\<rparr>]\<rparr>"

text \<open>
  What the search command caches for a legacy search that found the v2 channel of the
  API reference: \<^verbatim>\<open>{ results }\<close> with the normalized record, whose \<^verbatim>\<open>owner.id\<close> is
  \<^verbatim>\<open>undefined\<close> because the legacy \<^verbatim>\<open>user\<close> object has no \<^verbatim>\<open>id\<close>.
\<close>

definition cached_results :: jsval where
  "cached_results = JObj [(''results'', JArr [JObj (normalizeV2 v2_channel_example)])]"

text \<open>
  A legacy response that reports page 0 of 5, and one that reports no current page.
\<close>

definition v2_response_page0 :: V2SearchResponse where
  "v2_response_page0 =
    \<lparr>v2_per = Some 24, v2_current_page = Some 0, v2_total_pages = Some 5,
     v2_channels = Some [], v2_blocks = Some [], v2_users = Some []\<rparr>"

definition v2_response_no_page :: V2SearchResponse where
  "v2_response_no_page =
    \<lparr>v2_per = Some 24, v2_current_page = None, v2_total_pages = Some 5,
     v2_channels = Some [], v2_blocks = Some [], v2_users = Some []\<rparr>"

text \<open>
  A client that has sent nothing, a network that answers every request after 120 ms
  with a given status, headers and body, and the rate-limit headers of a response
  whose limit resets at 1700000030.
\<close>

definition client0 :: client where
  "client0 = \<lparr>clock = 1700000000000, lastRequestTime = 0, sent = []\<rparr>"

definition reply_with :: "int \<Rightarrow> headers \<Rightarrow> 'a option \<Rightarrow> 'a network" where
  "reply_with code hs body t req =
    \<lparr>settled_at = t + 120,
     outcome = Some \<lparr>status = code, headers = hs, body_text = [], body_json = body\<rparr>\<rparr>"

definition limit_headers :: headers where
  "limit_headers = [''x-ratelimit-limit'' \<mapsto> ''120'', ''x-ratelimit-tier'' \<mapsto> ''free'',
     ''x-ratelimit-window'' \<mapsto> ''60'', ''x-ratelimit-reset'' \<mapsto> ''1700000030'']"

text \<open>The options \<^verbatim>\<open>{scope: "all"}\<close> and \<^verbatim>\<open>{scope: "my"}\<close>.\<close>

definition everything_opts :: search_opts where
  "everything_opts =
    \<lparr>opt_type = None, opt_sort = None, opt_scope = Some ''all'', opt_page = None, opt_per = None\<rparr>"

definition mine_opts :: search_opts where
  "mine_opts =
    \<lparr>opt_type = None, opt_sort = None, opt_scope = Some ''my'', opt_page = None, opt_per = None\<rparr>"

text \<open>
  The number a record is sorted by when its count is a number, and three channels
  with the counts 5, 9 and 5.
\<close>

definition count_of :: "obj \<Rightarrow> int" where
  "count_of a = (case connections_count a of JNum n \<Rightarrow> n | _ \<Rightarrow> 0)"

definition channel_with :: "string \<Rightarrow> int \<Rightarrow> obj" where
  "channel_with title n =
     [(''type'', JStr ''Channel''), (''title'', JStr title),
      (''counts'', JObj [(''blocks'', JNum n), (''channels'', JNum 0), (''contents'', JNum n),
                         (''collaborators'', JNum 0)])]"

definition three_channels :: "obj list" where
  "three_channels = [channel_with ''a'' 5, channel_with ''b'' 9, channel_with ''c'' 5]"

section \<open>Properties of the object operations\<close>

lemma field_assign: "field (assign out k v) k' = (if k' = k then v else field out k')"
  by (simp add: field_def assign_def update_conv')

lemma map_of_assign: "map_of (assign out k v) = (map_of out)(k \<mapsto> v)"
  by (simp add: assign_def update_conv')

section \<open>Properties of the schema normalizer\<close>

subsection \<open>What one statement changes\<close>

lemmas norm_steps = norm_type_def norm_base_channel_def norm_base_block_def norm_channel_counts_def
  norm_visibility_def norm_owner_def norm_name_full_def norm_name_user_def norm_slug_def norm_user_counts_def

lemma field_map_of: "map_of out k = map_of out' k \<Longrightarrow> field out k = field out' k"
  by (simp add: field_def)

lemma step_other:
  "k \<noteq> ''type'' \<Longrightarrow> map_of (norm_type out) k = map_of out k"
  "k \<noteq> ''base_type'' \<Longrightarrow> map_of (norm_base_channel out) k = map_of out k"
  "k \<noteq> ''base_type'' \<Longrightarrow> map_of (norm_base_block out) k = map_of out k"
  "k \<noteq> ''counts'' \<Longrightarrow> map_of (norm_channel_counts out) k = map_of out k"
  "k \<noteq> ''visibility'' \<Longrightarrow> map_of (norm_visibility out) k = map_of out k"
  "k \<noteq> ''owner'' \<Longrightarrow> map_of (norm_owner out) k = map_of out k"
  "k \<noteq> ''name'' \<Longrightarrow> map_of (norm_name_full out) k = map_of out k"
  "k \<noteq> ''name'' \<Longrightarrow> map_of (norm_name_user out) k = map_of out k"
  "k \<noteq> ''slug'' \<Longrightarrow> map_of (norm_slug out) k = map_of out k"
  "k \<noteq> ''counts'' \<Longrightarrow> map_of (norm_user_counts out) k = map_of out k"
  by (simp_all add: norm_steps map_of_assign Let_def)

lemma step_truthy:
  "truthy (field out k) \<Longrightarrow> map_of (norm_type out) k = map_of out k"
  "truthy (field out k) \<Longrightarrow> map_of (norm_base_channel out) k = map_of out k"
  "truthy (field out k) \<Longrightarrow> map_of (norm_base_block out) k = map_of out k"
  "truthy (field out k) \<Longrightarrow> map_of (norm_channel_counts out) k = map_of out k"
  "truthy (field out k) \<Longrightarrow> map_of (norm_visibility out) k = map_of out k"
  "truthy (field out k) \<Longrightarrow> map_of (norm_owner out) k = map_of out k"
  "truthy (field out k) \<Longrightarrow> map_of (norm_name_full out) k = map_of out k"
  "truthy (field out k) \<Longrightarrow> map_of (norm_name_user out) k = map_of out k"
  "truthy (field out k) \<Longrightarrow> map_of (norm_slug out) k = map_of out k"
  "truthy (field out k) \<Longrightarrow> map_of (norm_user_counts out) k = map_of out k"
  by (auto simp: norm_steps map_of_assign Let_def)

lemma step_field_other:
  "k \<noteq> ''type'' \<Longrightarrow> field (norm_type out) k = field out k"
  "k \<noteq> ''base_type'' \<Longrightarrow> field (norm_base_channel out) k = field out k"
  "k \<noteq> ''base_type'' \<Longrightarrow> field (norm_base_block out) k = field out k"
  "k \<noteq> ''counts'' \<Longrightarrow> field (norm_channel_counts out) k = field out k"
  "k \<noteq> ''visibility'' \<Longrightarrow> field (norm_visibility out) k = field out k"
  "k \<noteq> ''owner'' \<Longrightarrow> field (norm_owner out) k = field out k"
  "k \<noteq> ''name'' \<Longrightarrow> field (norm_name_full out) k = field out k"
  "k \<noteq> ''name'' \<Longrightarrow> field (norm_name_user out) k = field out k"
  "k \<noteq> ''slug'' \<Longrightarrow> field (norm_slug out) k = field out k"
  "k \<noteq> ''counts'' \<Longrightarrow> field (norm_user_counts out) k = field out k"
  by (simp_all add: field_def step_other)

lemma step_field_truthy:
  "truthy (field out k) \<Longrightarrow> field (norm_type out) k = field out k"
  "truthy (field out k) \<Longrightarrow> field (norm_base_channel out) k = field out k"
  "truthy (field out k) \<Longrightarrow> field (norm_base_block out) k = field out k"
  "truthy (field out k) \<Longrightarrow> field (norm_channel_counts out) k = field out k"
  "truthy (field out k) \<Longrightarrow> field (norm_visibility out) k = field out k"
  "truthy (field out k) \<Longrightarrow> field (norm_owner out) k = field out k"
  "truthy (field out k) \<Longrightarrow> field (norm_name_full out) k = field out k"
  "truthy (field out k) \<Longrightarrow> field (norm_name_user out) k = field out k"
  "truthy (field out k) \<Longrightarrow> field (norm_slug out) k = field out k"
  "truthy (field out k) \<Longrightarrow> field (norm_user_counts out) k = field out k"
  by (rule field_map_of, simp add: step_truthy)+

lemma block_other:
  "k \<notin> {''counts'', ''visibility'', ''owner''} \<Longrightarrow> map_of (norm_channel out) k = map_of out k"
  "k \<notin> {''name'', ''slug'', ''counts''} \<Longrightarrow> map_of (norm_user out) k = map_of out k"
  by (simp_all add: norm_channel_def norm_user_def step_other)

lemma block_truthy:
  "truthy (field out k) \<Longrightarrow> map_of (norm_channel out) k = map_of out k"
  "truthy (field out k) \<Longrightarrow> map_of (norm_user out) k = map_of out k"
  by (simp_all add: norm_channel_def norm_user_def step_truthy step_field_truthy)

lemma block_field_other:
  "k \<notin> {''counts'', ''visibility'', ''owner''} \<Longrightarrow> field (norm_channel out) k = field out k"
  "k \<notin> {''name'', ''slug'', ''counts''} \<Longrightarrow> field (norm_user out) k = field out k"
  by (simp_all add: field_def block_other)

lemma block_field_truthy:
  "truthy (field out k) \<Longrightarrow> field (norm_channel out) k = field out k"
  "truthy (field out k) \<Longrightarrow> field (norm_user out) k = field out k"
  by (rule field_map_of, simp add: block_truthy)+

lemma normalizeV2_other:
  "k \<notin> canonical_fields \<Longrightarrow> map_of (normalizeV2 r) k = map_of r k"
  by (simp add: normalizeV2_def canonical_fields_def step_other block_other)

lemma normalizeV2_truthy:
  "truthy (field r k) \<Longrightarrow> map_of (normalizeV2 r) k = map_of r k"
  by (simp add: normalizeV2_def step_truthy block_truthy step_field_truthy block_field_truthy)

lemma normalizeV2_field_other:
  "k \<notin> canonical_fields \<Longrightarrow> field (normalizeV2 r) k = field r k"
  by (rule field_map_of) (simp add: normalizeV2_other)

lemma step_keys:
  "k \<in> fst ` set out \<Longrightarrow> k \<in> fst ` set (norm_type out)"
  "k \<in> fst ` set out \<Longrightarrow> k \<in> fst ` set (norm_base_channel out)"
  "k \<in> fst ` set out \<Longrightarrow> k \<in> fst ` set (norm_base_block out)"
  "k \<in> fst ` set out \<Longrightarrow> k \<in> fst ` set (norm_channel_counts out)"
  "k \<in> fst ` set out \<Longrightarrow> k \<in> fst ` set (norm_visibility out)"
  "k \<in> fst ` set out \<Longrightarrow> k \<in> fst ` set (norm_owner out)"
  "k \<in> fst ` set out \<Longrightarrow> k \<in> fst ` set (norm_name_full out)"
  "k \<in> fst ` set out \<Longrightarrow> k \<in> fst ` set (norm_name_user out)"
  "k \<in> fst ` set out \<Longrightarrow> k \<in> fst ` set (norm_slug out)"
  "k \<in> fst ` set out \<Longrightarrow> k \<in> fst ` set (norm_user_counts out)"
  by (simp_all add: norm_steps assign_def dom_update Let_def)

lemma block_keys:
  "k \<in> fst ` set out \<Longrightarrow> k \<in> fst ` set (norm_channel out)"
  "k \<in> fst ` set out \<Longrightarrow> k \<in> fst ` set (norm_user out)"
  by (simp_all add: norm_channel_def norm_user_def step_keys)

lemma normalizeV2_keys: "k \<in> fst ` set r \<Longrightarrow> k \<in> fst ` set (normalizeV2 r)"
  by (simp add: normalizeV2_def step_keys block_keys)

subsection \<open>Guards\<close>

lemma step_establish:
  "truthy (field out ''class'') \<Longrightarrow> truthy (field (norm_type out) ''type'')"
  "field out ''class'' = JStr ''Channel'' \<Longrightarrow> truthy (field (norm_base_channel out) ''base_type'')"
  "field out ''class'' \<noteq> JStr ''Channel'' \<Longrightarrow> field out ''class'' \<noteq> JStr ''User''
     \<Longrightarrow> truthy (field (norm_base_block out) ''base_type'')"
  "typeof_number (field out ''length'') \<Longrightarrow> truthy (field (norm_channel_counts out) ''counts'')"
  "truthy (field out ''status'') \<Longrightarrow> truthy (field (norm_visibility out) ''visibility'')"
  "truthy (field out ''user'') \<Longrightarrow> truthy (field (norm_owner out) ''owner'')"
  "truthy (field out ''full_name'') \<Longrightarrow> truthy (field (norm_name_full out) ''name'')"
  "truthy (field out ''username'') \<Longrightarrow> truthy (field (norm_name_user out) ''name'')"
  "truthy (field out ''username'') \<Longrightarrow> truthy (field (norm_slug out) ''slug'')"
  "truthy (field (norm_user_counts out) ''counts'')"
  by (simp_all add: norm_steps field_assign Let_def)

lemma step_noop:
  "(truthy (field out ''class'') \<longrightarrow> truthy (field out ''type'')) \<Longrightarrow> norm_type out = out"
  "(field out ''class'' = JStr ''Channel'' \<longrightarrow> truthy (field out ''base_type'')) \<Longrightarrow> norm_base_channel out = out"
  "(field out ''class'' \<noteq> JStr ''User'' \<longrightarrow> truthy (field out ''base_type'')) \<Longrightarrow> norm_base_block out = out"
  "(typeof_number (field out ''length'') \<longrightarrow> truthy (field out ''counts'')) \<Longrightarrow> norm_channel_counts out = out"
  "(truthy (field out ''status'') \<longrightarrow> truthy (field out ''visibility'')) \<Longrightarrow> norm_visibility out = out"
  "(truthy (field out ''user'') \<longrightarrow> truthy (field out ''owner'')) \<Longrightarrow> norm_owner out = out"
  "(truthy (field out ''full_name'') \<longrightarrow> truthy (field out ''name'')) \<Longrightarrow> norm_name_full out = out"
  "(truthy (field out ''username'') \<longrightarrow> truthy (field out ''name'')) \<Longrightarrow> norm_name_user out = out"
  "(truthy (field out ''username'') \<longrightarrow> truthy (field out ''slug'')) \<Longrightarrow> norm_slug out = out"
  "truthy (field out ''counts'') \<Longrightarrow> norm_user_counts out = out"
  by (auto simp add: norm_steps)

lemma settled_noop:
  assumes "settled out"
  shows "normalizeV2 out = out"
proof -
  have 1: "norm_type out = out"
    using assms by (simp add: settled_def step_noop)
  have 2: "norm_base_channel out = out"
    using assms by (intro step_noop) (auto simp: settled_def)
  have 3: "norm_base_block out = out"
    using assms by (simp add: settled_def step_noop)
  have 4: "norm_channel out = out"
    using assms by (simp add: settled_def norm_channel_def step_noop)
  have 5: "norm_user out = out"
    using assms by (simp add: settled_def norm_user_def step_noop)
  show ?thesis
    by (simp add: normalizeV2_def 1 2 3 4 5)
qed

lemma truthy_kept:
  "truthy (field out k) \<Longrightarrow> truthy (field (norm_type out) k)"
  "truthy (field out k) \<Longrightarrow> truthy (field (norm_base_channel out) k)"
  "truthy (field out k) \<Longrightarrow> truthy (field (norm_base_block out) k)"
  "truthy (field out k) \<Longrightarrow> truthy (field (norm_channel_counts out) k)"
  "truthy (field out k) \<Longrightarrow> truthy (field (norm_visibility out) k)"
  "truthy (field out k) \<Longrightarrow> truthy (field (norm_owner out) k)"
  "truthy (field out k) \<Longrightarrow> truthy (field (norm_name_full out) k)"
  "truthy (field out k) \<Longrightarrow> truthy (field (norm_name_user out) k)"
  "truthy (field out k) \<Longrightarrow> truthy (field (norm_slug out) k)"
  "truthy (field out k) \<Longrightarrow> truthy (field (norm_user_counts out) k)"
  "truthy (field out k) \<Longrightarrow> truthy (field (norm_channel out) k)"
  "truthy (field out k) \<Longrightarrow> truthy (field (norm_user out) k)"
  by (simp_all add: step_field_truthy block_field_truthy)

lemma legacy_fields:
  "field (normalizeV2 r) ''class'' = field r ''class''"
  "field (normalizeV2 r) ''length'' = field r ''length''"
  "field (normalizeV2 r) ''status'' = field r ''status''"
  "field (normalizeV2 r) ''user'' = field r ''user''"
  "field (normalizeV2 r) ''full_name'' = field r ''full_name''"
  "field (normalizeV2 r) ''username'' = field r ''username''"
  by (simp_all add: normalizeV2_field_other canonical_fields_def)

lemmas chase = normalizeV2_def Let_def norm_channel_def norm_user_def truthy_kept step_establish
  step_field_other block_field_other

lemma settled_normalizeV2: "settled (normalizeV2 r)"
  unfolding settled_def legacy_fields
proof (intro conjI impI)
  assume "truthy (field r ''class'')"
  then show "truthy (field (normalizeV2 r) ''type'')"
    by (simp add: chase)
next
  assume "field r ''class'' \<noteq> JStr ''User''"
  then show "truthy (field (normalizeV2 r) ''base_type'')"
    by (cases "field r ''class'' = JStr ''Channel''") (simp_all add: chase)
next
  assume "field r ''class'' = JStr ''Channel''" "typeof_number (field r ''length'')"
  then show "truthy (field (normalizeV2 r) ''counts'')"
    by (simp add: chase)
next
  assume "field r ''class'' = JStr ''Channel''" "truthy (field r ''status'')"
  then show "truthy (field (normalizeV2 r) ''visibility'')"
    by (simp add: chase)
next
  assume "field r ''class'' = JStr ''Channel''" "truthy (field r ''user'')"
  then show "truthy (field (normalizeV2 r) ''owner'')"
    by (simp add: chase)
next
  assume "field r ''class'' = JStr ''User''" "truthy (field r ''full_name'')"
  then show "truthy (field (normalizeV2 r) ''name'')"
    by (simp add: chase)
next
  assume "field r ''class'' = JStr ''User''" "truthy (field r ''username'')"
  then show "truthy (field (normalizeV2 r) ''name'')"
    by (simp add: chase)
next
  assume "field r ''class'' = JStr ''User''" "truthy (field r ''username'')"
  then show "truthy (field (normalizeV2 r) ''slug'')"
    by (simp add: chase)
next
  assume "field r ''class'' = JStr ''User''"
  then show "truthy (field (normalizeV2 r) ''counts'')"
    by (simp add: chase)
qed

lemma normalizeV2_settles_once: "normalizeV2 (normalizeV2 r) = normalizeV2 r"
  by (rule settled_noop) (rule settled_normalizeV2)


subsection \<open>Idempotence\<close>

text \<open>
  Claim C2, as the specification states it: a record already in canonical shape comes
  back unchanged. The v3 channel of the API reference conforms to the \<^verbatim>\<open>Channel\<close>
  interface, which has no \<^verbatim>\<open>class\<close> and no \<^verbatim>\<open>base_type\<close>; the guard of the third
  statement holds for it and the result has the new property \<^verbatim>\<open>base_type: "Block"\<close>.
\<close>

theorem normalizeV2_canonical_counterexample:
  "is_Channel v3_channel_example
   \<and> normalizeV2 v3_channel_example \<noteq> v3_channel_example
   \<and> field v3_channel_example ''base_type'' = JUndefined
   \<and> field (normalizeV2 v3_channel_example) ''base_type'' = JStr ''Block''"
  by code_simp

text \<open>
  Claim C2, amended: \<^verbatim>\<open>normalizeV2\<close> is idempotent on every record,
  \<open>normalizeV2 (normalizeV2 r) = normalizeV2 r\<close>, and it returns unchanged every record
  that has no truthy \<^verbatim>\<open>class\<close> and a truthy \<^verbatim>\<open>base_type\<close> (the canonical items).
\<close>

theorem normalizeV2_idempotent:
  "normalizeV2 (normalizeV2 r) = normalizeV2 r
   \<and> (\<not> truthy (field r ''class'') \<and> truthy (field r ''base_type'') \<longrightarrow> normalizeV2 r = r)"
proof (intro conjI impI)
  show "normalizeV2 (normalizeV2 r) = normalizeV2 r"
    by (rule normalizeV2_settles_once)
next
  assume a: "\<not> truthy (field r ''class'') \<and> truthy (field r ''base_type'')"
  then have "field r ''class'' \<noteq> JStr ''Channel''" "field r ''class'' \<noteq> JStr ''User''"
    by auto
  with a have "settled r"
    by (simp add: settled_def)
  then show "normalizeV2 r = r"
    by (rule settled_noop)
qed

theorem normalizeV2_idempotent_witness:
  "\<not> truthy (field v3_block_example ''class'')
   \<and> truthy (field v3_block_example ''base_type'')
   \<and> normalizeV2 v3_block_example = v3_block_example
   \<and> normalizeV2 (normalizeV2 v2_channel_example) = normalizeV2 v2_channel_example"
proof -
  have h: "\<not> truthy (field v3_block_example ''class'') \<and> truthy (field v3_block_example ''base_type'')"
    by (simp add: v3_block_example_def field_def)
  with normalizeV2_idempotent [of v3_block_example] normalizeV2_idempotent [of v2_channel_example]
  show ?thesis by simp
qed

subsection \<open>The counts of a legacy channel\<close>

text \<open>
  Claim C3, as the specification states it: the legacy item count \<open>n\<close> becomes the
  count of direct items. On the v2 channel of the API reference, with \<^verbatim>\<open>length: 7\<close>,
  the code gives \<^verbatim>\<open>blocks: 0\<close>; only \<^verbatim>\<open>contents\<close> is 7.
\<close>

theorem normalizeV2_channel_counts_counterexample:
  "field v2_channel_example ''class'' = JStr ''Channel''
   \<and> \<not> truthy (field v2_channel_example ''counts'')
   \<and> field v2_channel_example ''length'' = JNum 7
   \<and> field (normalizeV2 v2_channel_example) ''counts'' \<noteq>
       JObj [(''blocks'', JNum 7), (''channels'', JNum 0), (''contents'', JNum 7),
             (''collaborators'', JNum 0)]
   \<and> dot (field (normalizeV2 v2_channel_example) ''counts'') ''blocks'' = JNum 0"
  by code_simp

text \<open>
  Claim C3, amended: for a legacy channel (\<^verbatim>\<open>class\<close> is \<^verbatim>\<open>"Channel"\<close>) without truthy
  \<^verbatim>\<open>counts\<close> and with \<^verbatim>\<open>length\<close> the number \<open>n\<close>, the normalized record has the counts
  \<^verbatim>\<open>{blocks: 0, channels: 0, contents: n, collaborators: collaborator_count || 0}\<close>: the
  legacy count is the combined total, and the count of direct items is 0.
\<close>

theorem normalizeV2_channel_counts:
  assumes "field r ''class'' = JStr ''Channel''"
    and "\<not> truthy (field r ''counts'')"
    and "field r ''length'' = JNum n"
  shows "field (normalizeV2 r) ''counts'' =
    JObj [(''blocks'', JNum 0), (''channels'', JNum 0), (''contents'', JNum n),
          (''collaborators'', js_or (field r ''collaborator_count'') (JNum 0))]"
proof -
  let ?x = "norm_base_block (norm_base_channel (norm_type r))"
  have x: "field ?x k = field r k" if "k \<noteq> ''type''" "k \<noteq> ''base_type''" for k
    using that by (simp add: step_field_other)
  have c: "field (norm_channel_counts ?x) ''counts'' =
    JObj [(''blocks'', JNum 0), (''channels'', JNum 0), (''contents'', JNum n),
          (''collaborators'', js_or (field r ''collaborator_count'') (JNum 0))]"
    using assms by (simp add: norm_channel_counts_def x field_assign)
  have "field (normalizeV2 r) ''counts'' = field (norm_channel_counts ?x) ''counts''"
    using assms c by (simp add: normalizeV2_def norm_channel_def norm_user_def x
        step_field_truthy step_field_other block_field_other)
  with c show ?thesis by simp
qed

theorem normalizeV2_channel_counts_witness:
  "field v2_channel_example ''class'' = JStr ''Channel''
   \<and> \<not> truthy (field v2_channel_example ''counts'')
   \<and> field v2_channel_example ''length'' = JNum 7
   \<and> field (normalizeV2 v2_channel_example) ''counts'' =
       JObj [(''blocks'', JNum 0), (''channels'', JNum 0), (''contents'', JNum 7),
             (''collaborators'', JNum 0)]"
proof -
  have h1: "field v2_channel_example ''class'' = JStr ''Channel''"
    and h2: "\<not> truthy (field v2_channel_example ''counts'')"
    and h3: "field v2_channel_example ''length'' = JNum 7"
    and h4: "field v2_channel_example ''collaborator_count'' = JNum 0"
    by (simp_all add: v2_channel_example_def field_def)
  from normalizeV2_channel_counts [OF h1 h2 h3] h1 h2 h3 h4 show ?thesis
    by (simp add: js_or_def)
qed

subsection \<open>What the normalizer leaves alone\<close>

text \<open>
  Claim C10, as stated: every property present in the input is present with the same
  value in the output. A property that is present with a falsy value is not: the
  legacy channel below has \<^verbatim>\<open>visibility: null\<close>, and the result has
  \<^verbatim>\<open>visibility: "public"\<close>, the value of \<^verbatim>\<open>status\<close>.
\<close>

theorem normalizeV2_overwrites_counterexample:
  "map_of legacy_null_example ''visibility'' = Some JNull
   \<and> map_of (normalizeV2 legacy_null_example) ''visibility'' = Some (JStr ''public'')"
  by code_simp

text \<open>
  Claim C10, amended: \<^verbatim>\<open>normalizeV2\<close> builds a new record and assigns to that only. A
  property of the input whose value is truthy, and every property other than the
  seven canonical ones (\<^verbatim>\<open>type\<close>, \<^verbatim>\<open>base_type\<close>, \<^verbatim>\<open>counts\<close>, \<^verbatim>\<open>visibility\<close>, \<^verbatim>\<open>owner\<close>,
  \<^verbatim>\<open>name\<close>, \<^verbatim>\<open>slug\<close>), is in the output with the same value; no property is removed. A
  canonical property is written only where the input has none or a falsy one.
\<close>

theorem normalizeV2_frame:
  "(truthy (field r k) \<or> k \<notin> canonical_fields \<longrightarrow> map_of (normalizeV2 r) k = map_of r k)
   \<and> (k \<in> fst ` set r \<longrightarrow> k \<in> fst ` set (normalizeV2 r))"
  using normalizeV2_truthy [of r k] normalizeV2_other [of k r] normalizeV2_keys [of k r]
  by blast

theorem normalizeV2_frame_witness:
  "truthy (field v2_channel_example ''length'')
   \<and> ''length'' \<notin> canonical_fields
   \<and> ''length'' \<in> fst ` set v2_channel_example
   \<and> map_of (normalizeV2 v2_channel_example) ''length'' = Some (JNum 7)
   \<and> ''length'' \<in> fst ` set (normalizeV2 v2_channel_example)"
proof -
  have h1: "truthy (field v2_channel_example ''length'')"
    and h2: "''length'' \<notin> canonical_fields"
    and h3: "''length'' \<in> fst ` set v2_channel_example"
    and h4: "map_of v2_channel_example ''length'' = Some (JNum 7)"
    by (simp_all add: v2_channel_example_def field_def canonical_fields_def)
  with normalizeV2_frame [of v2_channel_example "''length''"] show ?thesis
    by simp
qed

section \<open>Properties of the response cache\<close>

lemma files_ensureDir: "files (ensureDir fs) = files fs"
  by (simp add: ensureDir_def)

lemma json_plain:
  "plain v \<Longrightarrow> json v = v"
  "plain_elements xs \<Longrightarrow> json_elements xs = xs"
  "plain_members ps \<Longrightarrow> json_members ps = ps"
  by (induction v and xs and ps rule: json_json_elements_json_members.induct) auto

text \<open>
  Conversely a value that comes back from JSON unchanged is plain: a dropped property
  makes the object shorter.
\<close>

lemma length_json_members: "length (json_members ps) \<le> length ps"
  by (induction ps) (auto simp: le_SucI)

lemma json_fixed:
  "json v = v \<Longrightarrow> plain v"
  "json_elements xs = xs \<Longrightarrow> plain_elements xs"
  "json_members ps = ps \<Longrightarrow> plain_members ps"
proof (induction v and xs and ps rule: json_json_elements_json_members.induct)
  case (1 xs)
  then show ?case by simp
next
  case (2 ps)
  then show ?case by simp
next
  case (12 x xs)
  from "12.prems" have a: "(if x = JUndefined then JNull else json x) = x"
    and b: "json_elements xs = xs"
    by simp_all
  from a have ne: "x \<noteq> JUndefined"
    by (cases "x = JUndefined") simp_all
  with a have "json x = x"
    by simp
  with ne b "12.IH" show ?case
    by simp
next
  case (14 k v ps)
  show ?case
  proof (cases "v = JUndefined")
    case True
    with "14.prems" have "json_members ps = (k, v) # ps"
      by simp
    then have "length (json_members ps) = Suc (length ps)"
      by simp
    with length_json_members [of ps] show ?thesis
      by simp
  next
    case False
    with "14.prems" have "json v = v" and "json_members ps = ps"
      by simp_all
    with False "14.IH" show ?thesis
      by simp
  qed
qed simp_all


text \<open>What \<^verbatim>\<open>get\<close> finds after \<^verbatim>\<open>set\<close>, within the TTL.\<close>

lemma cache_get_after_set:
  "now' - now \<le> ttlMs \<Longrightarrow>
     fst (cache_get md5_hex now' (cache_set md5_hex now fs query params data) query params ttlMs)
       = json data"
  by (simp add: cache_get_def cache_set_def Let_def files_ensureDir stringify_def)

text \<open>
  Claim C4: when \<^verbatim>\<open>get\<close> finds the entry of its key and the current time minus the
  timestamp of the entry exceeds the TTL, it returns \<^verbatim>\<open>null\<close> and the file of the entry
  is gone afterwards; no other file changes.
\<close>

theorem cache_get_expired:
  assumes "files fs (cacheKey md5_hex query params @ ''.json'') = Some (EntryJson entry)"
    and "now - entry_timestamp entry > ttlMs"
  shows "fst (cache_get md5_hex now fs query params ttlMs) = JNull
    \<and> files (snd (cache_get md5_hex now fs query params ttlMs))
          (cacheKey md5_hex query params @ ''.json'') = None
    \<and> (\<forall>p. p \<noteq> cacheKey md5_hex query params @ ''.json'' \<longrightarrow>
          files (snd (cache_get md5_hex now fs query params ttlMs)) p = files fs p)"
  using assms by (simp add: cache_get_def Let_def files_ensureDir)

theorem cache_get_expired_witness:
  "files stale_dir (cacheKey example_digest ''community radio'' ''type=&sort=score_desc&scope=all&per=24&page=1'' @ ''.json'')
     = Some (EntryJson \<lparr>entry_query = ''community radio'',
        entry_params = ''type=&sort=score_desc&scope=all&per=24&page=1'',
        entry_timestamp = 1700000000000, entry_data = JObj [(''results'', JArr [])]\<rparr>)
   \<and> 1700000900001 - 1700000000000 > (900000 :: int)
   \<and> fst (cache_get example_digest 1700000900001 stale_dir ''community radio''
         ''type=&sort=score_desc&scope=all&per=24&page=1'' 900000) = JNull
   \<and> files (snd (cache_get example_digest 1700000900001 stale_dir ''community radio''
         ''type=&sort=score_desc&scope=all&per=24&page=1'' 900000)) ''community ra.json'' = None"
proof -
  let ?e = "\<lparr>entry_query = ''community radio'',
        entry_params = ''type=&sort=score_desc&scope=all&per=24&page=1'',
        entry_timestamp = 1700000000000, entry_data = JObj [(''results'', JArr [])]\<rparr>"
  have k: "cacheKey example_digest ''community radio'' ''type=&sort=score_desc&scope=all&per=24&page=1'' @ ''.json''
     = ''community ra.json''"
    by (simp add: cacheKey_def example_digest_def)
  have h1: "files stale_dir (cacheKey example_digest ''community radio'' ''type=&sort=score_desc&scope=all&per=24&page=1'' @ ''.json'')
     = Some (EntryJson ?e)"
    unfolding k by (simp add: stale_dir_def)
  have h2: "1700000900001 - entry_timestamp ?e > 900000"
    by simp
  from cache_get_expired [OF h1 h2] h1 k show ?thesis
    by simp
qed

text \<open>
  Claim C9, as stated: \<^verbatim>\<open>get\<close> after \<^verbatim>\<open>set\<close>, within the TTL, returns exactly the value
  that was stored. The value the search command stores for the v2 channel of the API
  reference has a property \<^verbatim>\<open>owner.id\<close> that is \<^verbatim>\<open>undefined\<close>; the JSON file does not
  have it and \<^verbatim>\<open>get\<close> returns a different value.
\<close>

theorem cache_roundtrip_counterexample:
  "(1700000000500 :: int) - 1700000000000 \<le> 900000
   \<and> fst (cache_get example_digest 1700000000500 (cache_set example_digest 1700000000000 empty_dir
          ''community radio'' ''scope=all'' cached_results) ''community radio'' ''scope=all'' 900000)
     \<noteq> cached_results"
  by code_simp

text \<open>
  Claim C9, amended: for every query, parameter string and value made of
  \<^verbatim>\<open>undefined\<close>, \<^verbatim>\<open>null\<close>, booleans, numbers, strings, arrays and objects, \<^verbatim>\<open>get\<close> after
  \<^verbatim>\<open>set\<close> with the same query and parameters, at a time when the TTL has not elapsed,
  returns exactly the stored value if and only if the value is one that JSON carries
  unchanged: no object property or array element inside it is \<^verbatim>\<open>undefined\<close>, and no
  number in it is \<^verbatim>\<open>NaN\<close>, \<^verbatim>\<open>Infinity\<close> or \<^verbatim>\<open>-Infinity\<close>.
\<close>

theorem cache_set_get:
  "now' - now \<le> ttlMs \<longrightarrow>
     (fst (cache_get md5_hex now' (cache_set md5_hex now fs query params data) query params ttlMs)
        = data \<longleftrightarrow> plain data)"
  using json_plain(1) [of data] json_fixed(1) [of data]
  by (auto simp add: cache_get_after_set)

theorem cache_set_get_witness:
  "(1700000000500 :: int) - 1700000000000 \<le> 900000
   \<and> plain (JObj [(''results'', JArr [JObj v3_channel_example])])
   \<and> fst (cache_get example_digest 1700000000500 (cache_set example_digest 1700000000000 empty_dir
          ''community radio'' ''scope=all'' (JObj [(''results'', JArr [JObj v3_channel_example])]))
            ''community radio'' ''scope=all'' 900000)
       = JObj [(''results'', JArr [JObj v3_channel_example])]"
proof -
  have h1: "(1700000000500 :: int) - 1700000000000 \<le> 900000"
    by simp
  have h2: "plain (JObj [(''results'', JArr [JObj v3_channel_example])])"
    by (simp add: v3_channel_example_def)
  have "fst (cache_get example_digest 1700000000500 (cache_set example_digest 1700000000000 empty_dir
          ''community radio'' ''scope=all'' (JObj [(''results'', JArr [JObj v3_channel_example])]))
            ''community radio'' ''scope=all'' 900000)
       = JObj [(''results'', JArr [JObj v3_channel_example])]"
    using cache_set_get [of 1700000000500 1700000000000 900000 example_digest empty_dir
      "''community radio''" "''scope=all''" "JObj [(''results'', JArr [JObj v3_channel_example])]"]
      h1 h2
    by blast
  with h1 h2 show ?thesis
    by (intro conjI)
qed

section \<open>Properties of the pagination metadata\<close>

text \<open>
  Where the response reports a current page other than 0 and a number of pages, the
  metadata is as the specification describes it.
\<close>

lemma v2ToMeta_reported_page:
  assumes "v2_current_page r = Some c" and "c \<noteq> 0" and "v2_total_pages r = Some t"
  shows "current_page (v2ToMeta r page per) = c"
    and "next_page (v2ToMeta r page per) = (if c < t then Some (c + 1) else None)"
    and "prev_page (v2ToMeta r page per) = (if c > 1 then Some (c - 1) else None)"
    and "per_page (v2ToMeta r page per) = num_or (v2_per r) per"
    and "total_count (v2ToMeta r page per) = Some (t * per_page (v2ToMeta r page per))"
  using assms by (simp_all add: v2ToMeta_def num_or_def num_less_def num_plus_def num_times_def)

text \<open>
  Claim C5 says that \<open>next\<close> is \<open>current + 1\<close> when \<open>current\<close> is below the number of
  pages and \<open>previous\<close> is \<open>current - 1\<close> when \<open>current\<close> is above 1, where \<open>current\<close> is
  the reported page or else the requested one. The code takes the requested page for
  \<^verbatim>\<open>current_page\<close> but computes \<^verbatim>\<open>next_page\<close>, \<^verbatim>\<open>prev_page\<close> and \<^verbatim>\<open>has_more_pages\<close> from
  the reported one: for page 3 requested and page 0 of 5 reported, the metadata has
  \<^verbatim>\<open>current_page: 3\<close>, \<^verbatim>\<open>next_page: 1\<close> and \<^verbatim>\<open>prev_page: null\<close>; with no page reported
  it has \<^verbatim>\<open>current_page: 3\<close>, and no next and no previous page.
\<close>

theorem v2ToMeta_unreported_page:
  "v2ToMeta v2_response_page0 3 24 =
    \<lparr>current_page = 3, next_page = Some 1, prev_page = None, per_page = 24,
     total_pages = Some 5, total_count = Some 120, has_more_pages = True\<rparr>
   \<and> v2ToMeta v2_response_no_page 3 24 =
    \<lparr>current_page = 3, next_page = None, prev_page = None, per_page = 24,
     total_pages = Some 5, total_count = Some 120, has_more_pages = False\<rparr>"
  by (simp add: v2ToMeta_def v2_response_page0_def v2_response_no_page_def num_or_def
      num_less_def num_plus_def num_times_def)


section \<open>Properties of the transport\<close>


lemma parseInt_example: "parseInt ''1700000030'' = Some 1700000030"
  by (simp add: parseInt_def is_space_def digit_value_def)


lemma sent_pace: "sent (pace c) = sent c"
  by (simp add: pace_def Let_def)

lemma apiGet_sent: "sent (snd (apiGet env_token fetch c path)) = sent c @ [request_for env_token path]"
  by (simp add: apiGet_def Let_def sent_pace split: option.split)

lemma apiGet_clock:
  "clock (snd (apiGet env_token fetch c path)) =
     settled_at (fetch (clock (pace c)) (request_for env_token path))"
  by (simp add: apiGet_def Let_def split: option.split)

lemma apiGet_response:
  assumes "outcome (fetch (clock (pace c)) (request_for env_token path)) = Some res"
  shows "fst (apiGet env_token fetch c path) =
     classify path (settled_at (fetch (clock (pace c)) (request_for env_token path))) res"
  using assms by (simp add: apiGet_def Let_def)

lemma apiGet_rejected:
  assumes "outcome (fetch (clock (pace c)) (request_for env_token path)) = None"
  shows "fst (apiGet env_token fetch c path) = Inl FetchRejected"
  using assms by (simp add: apiGet_def Let_def)

lemma classify_unauthorized:
  "classify path now res = Inl TokenNotConfigured \<longleftrightarrow> status res = 401"
  by (simp add: classify_def Let_def not_found_def split: option.split)

lemma apiGet_unauthorized:
  "fst (apiGet env_token fetch c path) = Inl TokenNotConfigured \<longleftrightarrow>
     (\<exists>res. outcome (fetch (clock (pace c)) (request_for env_token path)) = Some res
            \<and> status res = 401)"
proof (cases "outcome (fetch (clock (pace c)) (request_for env_token path))")
  case None
  then show ?thesis by (simp add: apiGet_rejected)
next
  case (Some res)
  then show ?thesis by (simp add: apiGet_response classify_unauthorized)
qed




text \<open>
  Claim C6, as stated: on every 429 response the wait is the reset timestamp minus the
  current time, at least 1. A 429 response without rate-limit headers has the reset
  timestamp 0, for which that is 1; the error carries 60.
\<close>

theorem apiGet_rate_limited_counterexample:
  "reset (parseRateLimitHeaders Map.empty) = Some 0
   \<and> clock (snd (apiGet None (reply_with 429 Map.empty None :: V2SearchResponse network)
        client0 ''/ping'')) = 1700000000120
   \<and> fst (apiGet None (reply_with 429 Map.empty None :: V2SearchResponse network)
        client0 ''/ping'') = Inl (RateLimited 60 ''unknown'')
   \<and> max ((0 :: int) - 1700000000120 div 1000) 1 = 1"
proof -
  have p: "parseInt ''0'' = Some 0" "parseInt ''60'' = Some 60"
    by (simp_all add: parseInt_def is_space_def digit_value_def)
  show ?thesis
    by (simp add: apiGet_def classify_def Let_def reply_with_def pace_def client0_def
        RATE_DELAY_MS_def parseRateLimitHeaders_def header_or_def p)
qed


text \<open>
  Claim C6, amended: on a 429 response whose reset header parses to a number \<open>r\<close> other
  than 0, the error carries the wait \<open>max (r - now div 1000) 1\<close> seconds, \<open>now\<close> being
  the clock in milliseconds when the response has arrived, and the tier parsed from
  the response; when the reset header is absent, zero or not a number the wait is 60.
  A reset 30 seconds ahead gives the wait 30.
\<close>

theorem apiGet_rate_limited:
  assumes "outcome (fetch (clock (pace c)) (request_for env_token path)) = Some res"
    and "status res = 429"
  shows "(reset (parseRateLimitHeaders (headers res)) = Some r \<and> r \<noteq> 0 \<longrightarrow>
            fst (apiGet env_token fetch c path) =
              Inl (RateLimited (max (r - clock (snd (apiGet env_token fetch c path)) div 1000) 1)
                               (tier (parseRateLimitHeaders (headers res)))))
       \<and> (reset (parseRateLimitHeaders (headers res)) \<in> {None, Some 0} \<longrightarrow>
            fst (apiGet env_token fetch c path) =
              Inl (RateLimited 60 (tier (parseRateLimitHeaders (headers res)))))"
  using assms by (auto simp add: apiGet_response apiGet_clock classify_def Let_def)

theorem apiGet_rate_limited_witness:
  "outcome ((reply_with 429 limit_headers None :: V2SearchResponse network)
      (clock (pace client0)) (request_for None ''/ping''))
     = Some \<lparr>status = 429, headers = limit_headers, body_text = [], body_json = None\<rparr>
   \<and> reset (parseRateLimitHeaders limit_headers) = Some 1700000030
   \<and> clock (snd (apiGet None (reply_with 429 limit_headers None :: V2SearchResponse network)
        client0 ''/ping'')) = 1700000000120
   \<and> fst (apiGet None (reply_with 429 limit_headers None :: V2SearchResponse network)
        client0 ''/ping'') = Inl (RateLimited 30 ''free'')"
proof -
  let ?res = "\<lparr>status = 429, headers = limit_headers, body_text = [],
                body_json = (None :: V2SearchResponse option)\<rparr>"
  have h1: "outcome (reply_with 429 limit_headers None (clock (pace client0)) (request_for None ''/ping''))
      = Some ?res"
    by (simp add: reply_with_def)
  have h2: "status ?res = 429"
    by simp
  have r: "reset (parseRateLimitHeaders limit_headers) = Some 1700000030"
    by (simp add: parseRateLimitHeaders_def header_or_def limit_headers_def parseInt_example)
  have t: "tier (parseRateLimitHeaders limit_headers) = ''free''"
    by (simp add: parseRateLimitHeaders_def header_or_def limit_headers_def)
  have c: "clock (snd (apiGet None (reply_with 429 limit_headers None :: V2SearchResponse network)
        client0 ''/ping'')) = 1700000000120"
    by (simp add: apiGet_clock reply_with_def pace_def client0_def RATE_DELAY_MS_def)
  from apiGet_rate_limited [of "reply_with 429 limit_headers None" client0 None "''/ping''" ?res
      1700000030] h1 h2 r t c
  show ?thesis
    by simp
qed

section \<open>Properties of the search\<close>

lemma searchArena_legacy_path:
  assumes "opt_scope opts = None \<or> opt_scope opts = Some [] \<or> opt_scope opts = Some ''all''"
  shows "\<exists>path.
      (fst (searchArena localeCompare env_token fetch_v2 fetch_v3 c query opts) = Inl TokenNotConfigured
         \<longleftrightarrow> fst (apiGet env_token fetch_v2 c path) = Inl TokenNotConfigured)
      \<and> snd (searchArena localeCompare env_token fetch_v2 fetch_v3 c query opts)
          = snd (apiGet env_token fetch_v2 c path)"
proof -
  let ?path = "''https://api.are.na/v2'' @ v2TypeEndpoint (opt_type opts) @ ''?'' @
     params_toString [(''q'', query), (''per'', String (num_or (opt_per opts) 24)),
                      (''page'', String (num_or (opt_page opts) 1))]"
  have "searchArena localeCompare env_token fetch_v2 fetch_v3 c query opts =
     (case apiGet env_token fetch_v2 c ?path of
            (Inl e, c') \<Rightarrow> (Inl e, c')
          | (Inr (data, rateLimit), c') \<Rightarrow>
              (let results = v2ToResults data;
                   results = (case opt_sort opts of
                                None \<Rightarrow> results
                              | Some sort_name \<Rightarrow>
                                  if sort_name = [] then results
                                  else sortResults localeCompare results sort_name)
               in (Inr (results, v2ToMeta data (num_or (opt_page opts) 1) (num_or (opt_per opts) 24), rateLimit), c')))"
    using assms by (auto simp add: searchArena_def Let_def)
  then show ?thesis
    by (intro exI [of _ ?path]) (auto split: prod.splits sum.splits simp: Let_def)
qed

text \<open>
  Claim C1, as stated: a search with scope \<^verbatim>\<open>all\<close> and no credential fails before any
  request is issued. The code sends the request, without an \<^verbatim>\<open>Authorization\<close> header,
  and the error comes from the status 401 of the response.
\<close>

theorem searchArena_anonymous_counterexample:
  "getToken None = None
   \<and> sent client0 = []
   \<and> fst (searchArena example_compare None (reply_with 401 Map.empty None) (reply_with 401 Map.empty None)
        client0 ''community radio'' everything_opts) = Inl TokenNotConfigured
   \<and> sent (snd (searchArena example_compare None (reply_with 401 Map.empty None) (reply_with 401 Map.empty None)
        client0 ''community radio'' everything_opts))
       = [\<lparr>url = ''https://api.are.na/v2/search?q=community+radio&per=24&page=1'',
           authorization = None\<rparr>]"
  by code_simp

text \<open>
  Claim C1, amended: with no credential, a search whose scope is absent, empty or
  \<^verbatim>\<open>all\<close> issues exactly one request, without an \<^verbatim>\<open>Authorization\<close> header, and fails with
  the error \<^verbatim>\<open>ARENA_ACCESS_TOKEN not configured\<close> exactly when the response to it has
  status 401; a search with any other scope fails with that error before any request
  is issued, the state of the client unchanged.
\<close>

theorem searchArena_anonymous:
  assumes "getToken env_token = None"
  shows "(opt_scope opts \<in> {None, Some [], Some ''all''} \<longrightarrow>
           (\<exists>req. authorization req = None
              \<and> sent (snd (searchArena localeCompare env_token fetch_v2 fetch_v3 c query opts))
                   = sent c @ [req]
              \<and> (fst (searchArena localeCompare env_token fetch_v2 fetch_v3 c query opts)
                    = Inl TokenNotConfigured
                  \<longleftrightarrow> (\<exists>res. outcome (fetch_v2 (clock (pace c)) req) = Some res
                             \<and> status res = 401))))
       \<and> (opt_scope opts \<notin> {None, Some [], Some ''all''} \<longrightarrow>
            searchArena localeCompare env_token fetch_v2 fetch_v3 c query opts
              = (Inl TokenNotConfigured, c))"
proof (intro conjI impI)
  assume "opt_scope opts \<in> {None, Some [], Some ''all''}"
  then have "opt_scope opts = None \<or> opt_scope opts = Some [] \<or> opt_scope opts = Some ''all''"
    by simp
  from searchArena_legacy_path [OF this, of localeCompare env_token fetch_v2 fetch_v3 c query]
  obtain path where
    e: "fst (searchArena localeCompare env_token fetch_v2 fetch_v3 c query opts) = Inl TokenNotConfigured
         \<longleftrightarrow> fst (apiGet env_token fetch_v2 c path) = Inl TokenNotConfigured"
    and s: "snd (searchArena localeCompare env_token fetch_v2 fetch_v3 c query opts)
          = snd (apiGet env_token fetch_v2 c path)"
    by blast
  have a: "authorization (request_for env_token path) = None"
    using assms by (simp add: request_for_def Let_def)
  show "\<exists>req. authorization req = None
      \<and> sent (snd (searchArena localeCompare env_token fetch_v2 fetch_v3 c query opts)) = sent c @ [req]
      \<and> (fst (searchArena localeCompare env_token fetch_v2 fetch_v3 c query opts) = Inl TokenNotConfigured
          \<longleftrightarrow> (\<exists>res. outcome (fetch_v2 (clock (pace c)) req) = Some res \<and> status res = 401))"
    by (intro exI [of _ "request_for env_token path"] conjI)
       (simp_all add: a s e apiGet_sent apiGet_unauthorized)
next
  assume "opt_scope opts \<notin> {None, Some [], Some ''all''}"
  then obtain s where "opt_scope opts = Some s" "s \<noteq> []" "s \<noteq> ''all''"
    by (cases "opt_scope opts") auto
  then show "searchArena localeCompare env_token fetch_v2 fetch_v3 c query opts
      = (Inl TokenNotConfigured, c)"
    using assms by (simp add: searchArena_def searchArenaV3_def requireToken_def)
qed

theorem searchArena_anonymous_witness:
  "getToken None = None
   \<and> opt_scope mine_opts \<notin> {None, Some [], Some ''all''}
   \<and> opt_scope everything_opts \<in> {None, Some [], Some ''all''}
   \<and> searchArena example_compare None (reply_with 401 Map.empty None) (reply_with 401 Map.empty None)
        client0 ''community radio'' mine_opts = (Inl TokenNotConfigured, client0)
   \<and> (\<exists>req. authorization req = None
         \<and> sent (snd (searchArena example_compare None (reply_with 401 Map.empty None)
               (reply_with 401 Map.empty None) client0 ''community radio'' everything_opts)) = sent client0 @ [req])"
proof -
  have h: "getToken None = None"
    by (simp add: getToken_def)
  have m: "opt_scope mine_opts \<notin> {None, Some [], Some ''all''}"
    by (simp add: mine_opts_def)
  have e: "opt_scope everything_opts \<in> {None, Some [], Some ''all''}"
    by (simp add: everything_opts_def)
  from searchArena_anonymous [OF h, of mine_opts example_compare "reply_with 401 Map.empty None"
      "reply_with 401 Map.empty None" client0 "''community radio''"]
    searchArena_anonymous [OF h, of everything_opts example_compare "reply_with 401 Map.empty None"
      "reply_with 401 Map.empty None" client0 "''community radio''"] h m e
  show ?thesis by blast
qed


section \<open>Properties of the client-side sort\<close>

lemma sortResults_connections:
  "sortResults localeCompare results ''connections_count_desc''
     = sort_by (\<lambda>a b. js_minus (connections_count b) (connections_count a)) results"
  by (simp add: sortResults_def Let_def)

lemma sort_by_Cons: "sort_by compare (x # xs) = insert_by compare x (sort_by compare xs)"
  by (simp add: sort_by_def)

lemma set_insert_by: "set (insert_by compare x ys) = insert x (set ys)"
  by (induction ys) auto

lemma set_sort_by: "set (sort_by compare xs) = set xs"
  by (induction xs) (simp_all add: sort_by_def set_insert_by)

lemma mset_insert_by: "mset (insert_by compare x ys) = add_mset x (mset ys)"
  by (induction ys) auto

lemma mset_sort_by: "mset (sort_by compare xs) = mset xs"
  by (induction xs) (simp_all add: sort_by_def mset_insert_by)

lemma filter_insert_by_other:
  "\<not> P x \<Longrightarrow> filter P (insert_by compare x ys) = filter P ys"
  by (induction ys) simp_all

lemma filter_insert_by_tie:
  assumes "P x" and "\<forall>y\<in>set ys. P y \<longrightarrow> compare x y = Some 0"
  shows "filter P (insert_by compare x ys) = x # filter P ys"
  using assms by (induction ys) auto

lemma sort_by_stable:
  assumes "\<And>x y. P x \<Longrightarrow> P y \<Longrightarrow> compare x y = Some 0"
  shows "filter P (sort_by compare xs) = filter P xs"
proof (induction xs)
  case Nil
  show ?case by (simp add: sort_by_def)
next
  case (Cons x xs)
  show ?case
  proof (cases "P x")
    case True
    then have "filter P (insert_by compare x (sort_by compare xs)) = x # filter P (sort_by compare xs)"
      by (intro filter_insert_by_tie) (simp_all add: assms)
    with True Cons show ?thesis
      by (simp add: sort_by_Cons)
  next
    case False
    with Cons show ?thesis
      by (simp add: sort_by_Cons filter_insert_by_other)
  qed
qed

lemma is_number_JNum: "is_number v \<Longrightarrow> \<exists>n. v = JNum n"
  by (cases v) simp_all

lemma by_connections_numbers:
  assumes "is_number (connections_count a)" and "is_number (connections_count b)"
  shows "js_minus (connections_count b) (connections_count a) = Some (count_of b - count_of a)"
  using assms by (auto simp: js_minus_def count_of_def dest!: is_number_JNum)

lemma sorted_insert_by:
  assumes "\<forall>y\<in>set (x # ys). compare x y = Some (key x - key y)"
    and "sorted (map key ys)"
  shows "sorted (map key (insert_by compare x ys))"
  using assms by (induction ys) (auto simp: set_insert_by)

lemma sorted_sort_by:
  assumes "\<forall>x\<in>set xs. \<forall>y\<in>set xs. compare x y = Some (key x - key y)"
  shows "sorted (map key (sort_by compare xs))"
  using assms
proof (induction xs)
  case Nil
  show ?case by (simp add: sort_by_def)
next
  case (Cons x xs)
  then have "sorted (map key (sort_by compare xs))"
    by simp
  moreover have "\<forall>y\<in>set (x # sort_by compare xs). compare x y = Some (key x - key y)"
    using Cons.prems by (simp add: set_sort_by)
  ultimately show ?case
    by (simp add: sort_by_Cons sorted_insert_by del: set_simps)
qed

lemma sortResults_connections_sorted:
  assumes "\<forall>x\<in>set results. is_number (connections_count x)"
  shows "sorted (map (\<lambda>a. - count_of a) (sortResults localeCompare results ''connections_count_desc''))"
  unfolding sortResults_connections
  by (rule sorted_sort_by) (simp add: assms by_connections_numbers)

lemma sortResults_connections_mset:
  "mset (sortResults localeCompare results ''connections_count_desc'') = mset results"
  by (simp add: sortResults_connections mset_sort_by)

text \<open>
  On counts that are numbers the comparator is the difference of two keys, and the
  result of the sort is the one list that is a rearrangement of the input, ordered by
  the key and stable: any stable sort gives it.
\<close>

lemma sort_by_determined:
  assumes "\<forall>x\<in>set xs. \<forall>y\<in>set xs. compare x y = Some (key x - key y)"
  shows "sort_by compare xs = sort_key key xs"
proof (rule properties_for_sort_key [symmetric])
  show "mset (sort_by compare xs) = mset xs"
    by (rule mset_sort_by)
  show "sorted (map key (sort_by compare xs))"
    using assms by (rule sorted_sort_by)
  show "filter (\<lambda>x. key k = key x) (sort_by compare xs) = filter (\<lambda>x. key k = key x) xs"
    if "k \<in> set (sort_by compare xs)" for k
  proof -
    have "filter (\<lambda>x. x \<in> set xs \<and> key x = key k) (sort_by compare xs)
        = filter (\<lambda>x. x \<in> set xs \<and> key x = key k) xs"
      using assms by (intro sort_by_stable) simp
    moreover have "filter (\<lambda>x. x \<in> set xs \<and> key x = key k) zs = filter (\<lambda>x. key k = key x) zs"
      if "set zs \<subseteq> set xs" for zs
      using that by (intro filter_cong) auto
    ultimately show ?thesis
      by (simp add: set_sort_by)
  qed
qed

lemma sortResults_connections_determined:
  assumes "\<forall>x\<in>set results. is_number (connections_count x)"
  shows "sortResults localeCompare results ''connections_count_desc''
           = sort_key (\<lambda>a. - count_of a) results"
  unfolding sortResults_connections
  by (rule sort_by_determined) (simp add: assms by_connections_numbers)

text \<open>
  Claim C8: the sort by connection count, descending, is stable. For every list of
  results whose counts are numbers and every count \<open>n\<close>, the entries with count \<open>n\<close>
  are in the sorted list in the order they have in the input.
\<close>

theorem sortResults_connections_stable:
  assumes "\<forall>x\<in>set results. is_number (connections_count x)"
  shows "filter (\<lambda>x. connections_count x = JNum n)
           (sortResults localeCompare results ''connections_count_desc'')
         = filter (\<lambda>x. connections_count x = JNum n) results"
  unfolding sortResults_connections
  by (rule sort_by_stable) (simp add: js_minus_def)

theorem sortResults_connections_stable_witness:
  "is_number (connections_count (channel_with ''a'' 5))
   \<and> is_number (connections_count (channel_with ''b'' 9))
   \<and> is_number (connections_count (channel_with ''c'' 5))
   \<and> sortResults example_compare three_channels ''connections_count_desc''
       = [channel_with ''b'' 9, channel_with ''a'' 5, channel_with ''c'' 5]
   \<and> filter (\<lambda>x. connections_count x = JNum 5)
        (sortResults example_compare three_channels ''connections_count_desc'')
       = [channel_with ''a'' 5, channel_with ''c'' 5]"
proof -
  have c: "connections_count (channel_with t n) = JNum (if n = 0 then 0 else n)" for t n
    by (simp add: connections_count_def channel_with_def field_def dot_def js_or_def)
  have h: "\<forall>x\<in>set three_channels. is_number (connections_count x)"
    by (simp add: three_channels_def c)
  have s: "sortResults example_compare three_channels ''connections_count_desc''
       = [channel_with ''b'' 9, channel_with ''a'' 5, channel_with ''c'' 5]"
    by (simp add: sortResults_connections three_channels_def sort_by_def c js_minus_def)
  from sortResults_connections_stable [OF h, of 5 example_compare] s show ?thesis
    by (simp add: three_channels_def c)
qed


end
